theory Spec2Isabelle
  imports Main
begin

section \<open>Data model of package entity\<close>

text \<open>
  Go strings and byte slices are both sequences of bytes; an Isabelle \<open>char\<close> is one
  byte, so both are modelled as \<open>string\<close>. A method of \<open>*Entity\<close> that only reads its
  receiver takes the entity as a value, one that writes to it returns the entity it
  leaves; a \<open>*Container\<close> argument is the container before the call, and the
  container after it is part of the result. Receivers and container arguments are
  taken to be valid pointers.
\<close>

type_synonym bytes = string

text \<open>
  \<open>EntityData\<close> of entity.go, with the anonymous \<open>Body\<close> struct flattened into
  fields named \<open>Body_...\<close>.
\<close>

record EntityData =
  Scope :: string
  Version :: int
  Type :: string
  Options :: string
  Body_Id :: string
  Body_Name :: string
  Body_KeyType :: string
  Body_PublicSigningKey :: string
  Body_PrivateSigningKey :: string
  Body_PublicEncryptionKey :: string
  Body_PrivateEncryptionKey :: string

text \<open>
  \<open>Entity\<close> embeds \<open>document.Document\<close>, of which entity.go assigns the fields
  \<open>Schema\<close> and \<open>Default\<close>, and holds the \<open>Data\<close>.
\<close>

record Entity =
  Schema :: string
  Default :: string
  Data :: EntityData

text \<open>
  \<open>document.Container\<close>: the fields entity.go reads and writes, flattened
  (\<open>container.Data.Options.Signature\<close> is \<open>Options_Signature\<close>, \<open>container.Data.Body\<close>
  is \<open>Data_Body\<close>). A Go map read at a missing key gives the empty string. Whatever
  else the document package keeps in a container (the encryption metadata) is the
  field \<open>Opaque\<close>, which entity.go never touches.
\<close>

record Container =
  Options_Source :: string
  Options_SignatureMode :: string
  Options_Signature :: string
  Options_SignatureInputs :: "string \<rightharpoonup> string"
  Data_Body :: string
  Opaque :: string

definition map_index :: "(string \<rightharpoonup> string) \<Rightarrow> string \<Rightarrow> string" where
  "map_index m k = (case m k of None \<Rightarrow> [] | Some v \<Rightarrow> v)"

text \<open>\<open>crypto.Signed\<close>: the fields entity.go uses.\<close>

record Signed =
  Message :: string
  Mode :: string
  Signature :: string

text \<open>The zero value that \<open>new(crypto.Signed)\<close> allocates.\<close>

definition new_Signed :: Signed where
  "new_Signed = \<lparr>Message = [], Mode = [], Signature = []\<rparr>"

text \<open>
  The key types of the Go standard library, as far as entity.go looks into them: a
  private key holds its public key as the field \<open>PublicKey\<close>.
\<close>

record rsa_PublicKey =
  rsa_N :: int
  rsa_E :: int

record rsa_PrivateKey =
  rsa_PublicKey :: rsa_PublicKey
  rsa_D :: int
  rsa_Primes :: "int list"

record ecdsa_PublicKey =
  ecdsa_Curve :: string
  ecdsa_X :: int
  ecdsa_Y :: int

record ecdsa_PrivateKey =
  ecdsa_PublicKey :: ecdsa_PublicKey
  ecdsa_D :: int

text \<open>The \<open>interface{}\<close> values that \<open>GenerateKeys\<close> hands to the PEM encoders.\<close>

datatype private_key = RSAPrivate rsa_PrivateKey | ECPrivate ecdsa_PrivateKey

datatype public_key = RSAPublic rsa_PublicKey | ECPublic ecdsa_PublicKey

text \<open>The dynamic type of the \<open>entities\<close> argument of \<open>Encrypt\<close>: \<open>nil\<close>, a slice of
  entity pointers (a \<open>nil\<close> pointer in the slice is \<open>None\<close>), or a value of any other
  type, of which only the type name is used.\<close>

datatype entities_arg =
    NilArg
  | EntitySlice "Entity option list"
  | OtherArg string

section \<open>Errors\<close>

text \<open>
  Go errors are values. Every \<open>fmt.Errorf\<close> of entity.go is one constructor, holding
  the error it wraps; \<open>LibError\<close> is an error made by package crypto, package
  document or a key method, \<open>HexInvalidByte\<close> and \<open>HexErrLength\<close> are the two errors
  of \<open>encoding/hex\<close>.
\<close>

datatype error =
    LibError string
  | HexInvalidByte char
  | HexErrLength
  | CouldntCreateNewEntity error
  | CouldNotCreateNewEntity error
  | CouldNotLoadEntityJson error
  | CouldNotValidateSigningKey error
  | CouldNotValidateEncryptionKey error
  | InvalidKeyType string
  | CouldNotSignContainerJson error
  | SignedMessageDoesntMatchInput
  | CouldNotDecodeKey error
  | ColdNotExpandKey error
  | CouldNotHMACContainer error
  | AuthenticatedMessageDoesntMatch
  | CouldNotExpandKey error
  | CouldntVerifyContainer error
  | ContainerIsntSigned
  | CouldNotVerifyOrgContainerSignature error
  | ContainerIsntEncrypted
  | CouldNotDecrypt error
  | CouldNotCreatePublicEntity error
  | CouldNotCreateContainer error
  | CouldNotSignContainer error
  | InvalidEntitiesGiven string
  | CouldNotEncryptContainer error
  | CouldntEncryptContent error
  | CouldNotAuthenticateContainer error
  | CouldNotVerifyContainer error
  | CouldNotDecryptContainer error

section \<open>The packages entity.go calls\<close>

text \<open>
  Packages crypto and document and the methods of the key types are not part of
  entity.go. They are parameters of the model: a record of the functions and
  constants entity.go uses, each with the arguments of its call sites. A function
  that draws random bytes takes them as its first argument. A Go function that
  fills a \<open>*Signed\<close> and returns an error is a function to \<open>error + Signed\<close>; one
  that changes the container it is called on returns the changed container.
  \<open>Base64Decode\<close> returns its value and its error side by side, as in Go, because
  \<open>VerifyAuthentication\<close> goes on with the value when the error is set.
\<close>

record deps =
  KeyTypeRSA :: string
  KeyTypeEC :: string
  SignatureModeSha256Rsa :: string
  SignatureModeSha256Ecdsa :: string
  SignatureModeSha256Hmac :: string
  GenerateRSAKey :: "bytes \<Rightarrow> error + rsa_PrivateKey"
  GenerateECKey :: "bytes \<Rightarrow> error + ecdsa_PrivateKey"
  rsa_Precompute :: "rsa_PrivateKey \<Rightarrow> rsa_PrivateKey"
  rsa_Validate :: "rsa_PrivateKey \<Rightarrow> error option"
  PemEncodePublic :: "public_key \<Rightarrow> error + bytes"
  PemEncodePrivate :: "private_key \<Rightarrow> error + bytes"
  NewSignature :: "string \<Rightarrow> Signed"
  crypto_Sign :: "bytes \<Rightarrow> string \<Rightarrow> string \<Rightarrow> Signed \<Rightarrow> error + Signed"
  crypto_Verify :: "Signed \<Rightarrow> string \<Rightarrow> error option"
  ExpandKey :: "bytes \<Rightarrow> bytes \<Rightarrow> bytes option \<Rightarrow> error + (bytes \<times> bytes)"
  Base64Encode :: "bytes \<Rightarrow> bytes"
  Base64Decode :: "bytes \<Rightarrow> bytes option \<times> error option"
  crypto_HMAC :: "bytes \<Rightarrow> bytes \<Rightarrow> Signed \<Rightarrow> error + Signed"
  HMACVerify :: "bytes \<Rightarrow> bytes \<Rightarrow> Signed \<Rightarrow> error option"
  NewContainer :: "error + Container"
  Container_Dump :: "Container \<Rightarrow> string"
  IsSigned :: "Container \<Rightarrow> bool"
  IsEncrypted :: "Container \<Rightarrow> bool"
  Container_Encrypt :: "bytes \<Rightarrow> Container \<Rightarrow> string \<Rightarrow> (string \<rightharpoonup> string) \<Rightarrow> error + Container"
  Container_Decrypt :: "Container \<Rightarrow> string \<Rightarrow> string \<Rightarrow> error + string"
  ToJson :: "EntityData \<Rightarrow> error + string"
  FromJson :: "string \<Rightarrow> string \<Rightarrow> string \<Rightarrow> error + EntityData"

text \<open>
  The calls an operation makes into the two packages, in order, with their
  arguments. Every operation on a container returns this list beside its result.
\<close>

datatype event =
    CallNewSignature string
  | CallDump Container
  | CallSign string string Signed
  | CallVerify Signed string
  | CallExpandKey bytes "bytes option"
  | CallBase64Encode bytes
  | CallBase64Decode bytes
  | CallHMAC bytes bytes Signed
  | CallHMACVerify bytes bytes Signed
  | CallNewContainer
  | CallIsSigned Container
  | CallIsEncrypted Container
  | CallEncrypt Container string "string \<rightharpoonup> string"
  | CallDecrypt Container string string

text \<open>
  What a call returns: the Go result (for a method that only returns an error, the
  container as the call leaves it), the error (\<open>None\<close> is \<open>nil\<close>) and the calls made.
\<close>

record 'a outcome =
  val :: 'a
  err :: "error option"
  calls :: "event list"

section \<open>encoding/hex\<close>

text \<open>
  \<open>hex.DecodeString\<close> of the Go standard library: two hex digits of either case give
  one byte; a byte that is no hex digit is \<open>InvalidByteError\<close>, an odd length
  \<open>ErrLength\<close>. entity.go uses the bytes only when the error is \<open>nil\<close>.
\<close>

definition fromHexChar :: "char \<Rightarrow> nat option" where
  "fromHexChar c =
     (let n = (of_char c :: nat) in
      if 48 \<le> n \<and> n \<le> 57 then Some (n - 48)
      else if 97 \<le> n \<and> n \<le> 102 then Some (n - 97 + 10)
      else if 65 \<le> n \<and> n \<le> 70 then Some (n - 65 + 10)
      else None)"

fun hex_DecodeString :: "string \<Rightarrow> error + bytes" where
  "hex_DecodeString [] = Inr []"
| "hex_DecodeString [p] =
     (case fromHexChar p of
        None \<Rightarrow> Inl (HexInvalidByte p)
      | Some a \<Rightarrow> Inl HexErrLength)"
| "hex_DecodeString (p # q # rest) =
     (case fromHexChar p of
        None \<Rightarrow> Inl (HexInvalidByte p)
      | Some a \<Rightarrow>
          (case fromHexChar q of
             None \<Rightarrow> Inl (HexInvalidByte q)
           | Some b \<Rightarrow>
               (case hex_DecodeString rest of
                  Inl e \<Rightarrow> Inl e
                | Inr bs \<Rightarrow> Inr (char_of (a * 16 + b) # bs))))"

section \<open>Key generation\<close>

text \<open>
  \<open>generateRSAKeys\<close> and \<open>generateECKeys\<close> return the two private keys or an error;
  \<open>generateRSAKeys\<close> also stores the PEM of the public signing key in the entity. The
  arguments \<open>r1\<close> and \<open>r2\<close> are the random bytes of the two key generations.
\<close>

definition generateRSAKeys ::
  "deps \<Rightarrow> bytes \<Rightarrow> bytes \<Rightarrow> Entity \<Rightarrow> Entity \<times> (error + rsa_PrivateKey \<times> rsa_PrivateKey)" where
  "generateRSAKeys d r1 r2 entity =
     (case GenerateRSAKey d r1 of
        Inl e \<Rightarrow> (entity, Inl e)
      | Inr signingKey0 \<Rightarrow>
     (case GenerateRSAKey d r2 of
        Inl e \<Rightarrow> (entity, Inl e)
      | Inr encryptionKey0 \<Rightarrow>
     (let signingKey = rsa_Precompute d signingKey0;
          encryptionKey = rsa_Precompute d encryptionKey0
      in case rsa_Validate d signingKey of
        Some e \<Rightarrow> (entity, Inl (CouldNotValidateSigningKey e))
      | None \<Rightarrow>
     (case rsa_Validate d encryptionKey of
        Some e \<Rightarrow> (entity, Inl (CouldNotValidateEncryptionKey e))
      | None \<Rightarrow>
     (case PemEncodePublic d (RSAPublic (rsa_PublicKey signingKey)) of
        Inl e \<Rightarrow> (entity, Inl e)
      | Inr pub \<Rightarrow>
          (entity\<lparr>Data := (Data entity)\<lparr>Body_PublicSigningKey := pub\<rparr>\<rparr>,
           Inr (signingKey, encryptionKey)))))))"

definition generateECKeys ::
  "deps \<Rightarrow> bytes \<Rightarrow> bytes \<Rightarrow> Entity \<Rightarrow> Entity \<times> (error + ecdsa_PrivateKey \<times> ecdsa_PrivateKey)" where
  "generateECKeys d r1 r2 entity =
     (case GenerateECKey d r1 of
        Inl e \<Rightarrow> (entity, Inl e)
      | Inr signingKey \<Rightarrow>
     (case GenerateECKey d r2 of
        Inl e \<Rightarrow> (entity, Inl e)
      | Inr encryptionKey \<Rightarrow> (entity, Inr (signingKey, encryptionKey))))"

text \<open>
  \<open>GenerateKeys\<close> returns the entity as the call leaves it (fields assigned before
  a failing step stay assigned) and the error.
\<close>

definition GenerateKeys :: "deps \<Rightarrow> bytes \<Rightarrow> bytes \<Rightarrow> Entity \<Rightarrow> Entity \<times> error option" where
  "GenerateKeys d r1 r2 entity =
     (let kt = Body_KeyType (Data entity);
          sw =
            (if kt = KeyTypeRSA d then
               (case generateRSAKeys d r1 r2 entity of
                  (e1, Inl e) \<Rightarrow> (e1, Inl e)
                | (e1, Inr (signingKey, encryptionKey)) \<Rightarrow>
                    (e1, Inr (RSAPrivate signingKey, RSAPrivate encryptionKey,
                              RSAPublic (rsa_PublicKey signingKey),
                              RSAPublic (rsa_PublicKey encryptionKey))))
             else if kt = KeyTypeEC d then
               (case generateECKeys d r1 r2 entity of
                  (e1, Inl e) \<Rightarrow> (e1, Inl e)
                | (e1, Inr (signingKey, encryptionKey)) \<Rightarrow>
                    (e1, Inr (ECPrivate signingKey, ECPrivate encryptionKey,
                              ECPublic (ecdsa_PublicKey signingKey),
                              ECPublic (ecdsa_PublicKey encryptionKey))))
             else (entity, Inl (InvalidKeyType kt)))
      in case sw of
        (e1, Inl e) \<Rightarrow> (e1, Some e)
      | (e1, Inr (signingKey, encryptionKey, publicSigningKey, publicEncryptionKey)) \<Rightarrow>
     (case PemEncodePublic d publicSigningKey of
        Inl e \<Rightarrow> (e1, Some e)
      | Inr pub \<Rightarrow>
     (let e2 = e1\<lparr>Data := (Data e1)\<lparr>Body_PublicSigningKey := pub\<rparr>\<rparr>
      in case PemEncodePrivate d signingKey of
        Inl e \<Rightarrow> (e2, Some e)
      | Inr key \<Rightarrow>
     (let e3 = e2\<lparr>Data := (Data e2)\<lparr>Body_PrivateSigningKey := key\<rparr>\<rparr>
      in case PemEncodePublic d publicEncryptionKey of
        Inl e \<Rightarrow> (e3, Some e)
      | Inr pub' \<Rightarrow>
     (let e4 = e3\<lparr>Data := (Data e3)\<lparr>Body_PublicEncryptionKey := pub'\<rparr>\<rparr>
      in case PemEncodePrivate d encryptionKey of
        Inl e \<Rightarrow> (e4, Some e)
      | Inr key' \<Rightarrow>
          (e4\<lparr>Data := (Data e4)\<lparr>Body_PrivateEncryptionKey := key'\<rparr>\<rparr>, None))))))"

section \<open>Signing and verifying\<close>

text \<open>
  \<open>Sign\<close>: \<open>r\<close> is the random bytes the signing primitive may draw. The container
  returned is the one the caller's pointer refers to after the call.
\<close>

definition Sign :: "deps \<Rightarrow> bytes \<Rightarrow> Entity \<Rightarrow> Container \<Rightarrow> Container outcome" where
  "Sign d r entity container =
     (let kt = Body_KeyType (Data entity) in
      case (if kt = KeyTypeRSA d then Some (SignatureModeSha256Rsa d)
            else if kt = KeyTypeEC d then Some (SignatureModeSha256Ecdsa d)
            else None) of
        None \<Rightarrow> \<lparr>val = container, err = Some (InvalidKeyType kt), calls = []\<rparr>
      | Some signatureMode \<Rightarrow>
     (let signature = NewSignature d signatureMode;
          c1 = container\<lparr>Options_SignatureMode := Mode signature\<rparr>;
          c2 = c1\<lparr>Options_Signature := []\<rparr>;
          containerJson = Container_Dump d c2;
          priv = Body_PrivateSigningKey (Data entity);
          t = [CallNewSignature signatureMode, CallDump c2, CallSign containerJson priv signature]
      in case crypto_Sign d r containerJson priv signature of
        Inl e \<Rightarrow> \<lparr>val = c2, err = Some (CouldNotSignContainerJson e), calls = t\<rparr>
      | Inr signature' \<Rightarrow>
          if Message signature' \<noteq> containerJson
          then \<lparr>val = c2, err = Some SignedMessageDoesntMatchInput, calls = t\<rparr>
          else \<lparr>val = c2\<lparr>Options_SignatureMode := Mode signature',
                         Options_Signature := Signature signature'\<rparr>,
                err = None, calls = t\<rparr>))"

definition Verify :: "deps \<Rightarrow> Entity \<Rightarrow> Container \<Rightarrow> Container outcome" where
  "Verify d entity container =
     (if IsSigned d container = False
      then \<lparr>val = container, err = Some ContainerIsntSigned, calls = [CallIsSigned container]\<rparr>
      else
     (let signature0 = new_Signed\<lparr>Signature := Options_Signature container\<rparr>;
          c1 = container\<lparr>Options_Signature := []\<rparr>;
          containerJson = Container_Dump d c1;
          signature = signature0\<lparr>Message := containerJson\<rparr>;
          pub = Body_PublicSigningKey (Data entity);
          t = [CallIsSigned container, CallDump c1, CallVerify signature pub]
      in case crypto_Verify d signature pub of
        Some e \<Rightarrow> \<lparr>val = c1, err = Some (CouldNotVerifyOrgContainerSignature e), calls = t\<rparr>
      | None \<Rightarrow> \<lparr>val = c1, err = None, calls = t\<rparr>))"

section \<open>Authenticating with a shared secret\<close>

text \<open>
  \<open>Authenticate\<close>: \<open>r\<close> is the random bytes \<open>ExpandKey\<close> may draw for a new salt; the
  salt argument \<open>None\<close> is Go's \<open>nil\<close>.
\<close>

definition Authenticate ::
  "deps \<Rightarrow> bytes \<Rightarrow> Entity \<Rightarrow> Container \<Rightarrow> string \<Rightarrow> string \<Rightarrow> Container outcome" where
  "Authenticate d r entity container id' key =
     (case hex_DecodeString key of
        Inl e \<Rightarrow> \<lparr>val = container, err = Some (CouldNotDecodeKey e), calls = []\<rparr>
      | Inr rawKey \<Rightarrow>
     (case ExpandKey d r rawKey None of
        Inl e \<Rightarrow> \<lparr>val = container, err = Some (ColdNotExpandKey e),
                  calls = [CallExpandKey rawKey None]\<rparr>
      | Inr (newKey, salt) \<Rightarrow>
     (let signature = NewSignature d (SignatureModeSha256Hmac d);
          c1 = container\<lparr>Options_SignatureMode := Mode signature\<rparr>;
          signatureInputs =
            (Map.empty(''key-id'' \<mapsto> id'))(''signature-salt'' \<mapsto> Base64Encode d salt);
          c2 = c1\<lparr>Options_SignatureInputs := signatureInputs\<rparr>;
          c3 = c2\<lparr>Options_Signature := []\<rparr>;
          containerJson = Container_Dump d c3;
          t = [CallExpandKey rawKey None, CallNewSignature (SignatureModeSha256Hmac d),
               CallBase64Encode salt, CallDump c3, CallHMAC containerJson newKey signature]
      in case crypto_HMAC d containerJson newKey signature of
        Inl e \<Rightarrow> \<lparr>val = c3, err = Some (CouldNotHMACContainer e), calls = t\<rparr>
      | Inr signature' \<Rightarrow>
          if Message signature' \<noteq> containerJson
          then \<lparr>val = c3, err = Some AuthenticatedMessageDoesntMatch, calls = t\<rparr>
          else \<lparr>val = c3\<lparr>Options_Signature := Signature signature'\<rparr>,
                err = None, calls = t\<rparr>)))"

text \<open>
  \<open>VerifyAuthentication\<close>: the error of \<open>Base64Decode\<close> is formatted by \<open>fmt.Errorf\<close>
  and the formatted value is dropped; the function goes on with the \<open>salt\<close> that
  \<open>Base64Decode\<close> returned beside the error.
\<close>

definition VerifyAuthentication ::
  "deps \<Rightarrow> bytes \<Rightarrow> Entity \<Rightarrow> Container \<Rightarrow> string \<Rightarrow> Container outcome" where
  "VerifyAuthentication d r entity container key =
     (case hex_DecodeString key of
        Inl e \<Rightarrow> \<lparr>val = container, err = Some (CouldNotDecodeKey e), calls = []\<rparr>
      | Inr rawKey \<Rightarrow>
     (let encoded = map_index (Options_SignatureInputs container) ''signature-salt'';
          (salt, decodeErr) = Base64Decode d encoded
      in case ExpandKey d r rawKey salt of
        Inl e \<Rightarrow> \<lparr>val = container, err = Some (CouldNotExpandKey e),
                  calls = [CallBase64Decode encoded, CallExpandKey rawKey salt]\<rparr>
      | Inr (newKey, salt') \<Rightarrow>
     (let mac0 = NewSignature d (SignatureModeSha256Hmac d);
          mac = mac0\<lparr>Signature := Options_Signature container\<rparr>;
          c1 = container\<lparr>Options_Signature := []\<rparr>;
          containerJson = Container_Dump d c1;
          t = [CallBase64Decode encoded, CallExpandKey rawKey salt,
               CallNewSignature (SignatureModeSha256Hmac d), CallDump c1,
               CallHMACVerify containerJson newKey mac]
      in case HMACVerify d containerJson newKey mac of
        Some e \<Rightarrow> \<lparr>val = c1, err = Some (CouldntVerifyContainer e), calls = t\<rparr>
      | None \<Rightarrow> \<lparr>val = c1, err = None, calls = t\<rparr>)))"

section \<open>Entity documents\<close>

text \<open>The two constants of entity.go, byte for byte.\<close>

definition EntityDefault :: string where
  \<open>EntityDefault =
     ''{\<newline>'' @
     ''    "scope": "pki.io",\<newline>'' @
     ''    "version": 1,\<newline>'' @
     ''    "type": "entity-document",\<newline>'' @
     ''    "options": "",\<newline>'' @
     ''    "body": {\<newline>'' @
     ''      "id": "",\<newline>'' @
     ''      "name": "",\<newline>'' @
     ''      "key-type": "ec",\<newline>'' @
     ''      "public-signing-key": "",\<newline>'' @
     ''      "private-signing-key": "",\<newline>'' @
     ''      "public-encryption-key": "",\<newline>'' @
     ''      "private-encryption-key": ""\<newline>'' @
     ''    }\<newline>'' @
     ''}''\<close>

definition EntitySchema :: string where
  \<open>EntitySchema =
     ''{\<newline>'' @
     ''  "$schema": "http://json-schema.org/draft-04/schema#",\<newline>'' @
     ''  "title": "EntityDocument",\<newline>'' @
     ''  "description": "Entity Document",\<newline>'' @
     ''  "type": "object",\<newline>'' @
     ''  "required": ["scope","version","type","options","body"],\<newline>'' @
     ''  "additionalProperties": false,\<newline>'' @
     ''  "properties": {\<newline>'' @
     ''      "scope": {\<newline>'' @
     ''          "description": "Scope of the document",\<newline>'' @
     ''          "type": "string"\<newline>'' @
     ''      },\<newline>'' @
     ''      "version": {\<newline>'' @
     ''          "description": "Document schema version",\<newline>'' @
     ''          "type": "integer"\<newline>'' @
     ''      },\<newline>'' @
     ''      "type": {\<newline>'' @
     ''          "description": "Type of document",\<newline>'' @
     ''          "type": "string"\<newline>'' @
     ''      },\<newline>'' @
     ''      "options": {\<newline>'' @
     ''          "description": "Options data",\<newline>'' @
     ''          "type": "string"\<newline>'' @
     ''      },\<newline>'' @
     ''      "body": {\<newline>'' @
     ''          "description": "Body data",\<newline>'' @
     ''          "type": "object",\<newline>'' @
     ''          "required": ["id", "name", "key-type", "public-signing-key", "private-signing-key", "public-encryption-key", "private-encryption-key"],\<newline>'' @
     ''          "additionalProperties": false,\<newline>'' @
     ''          "properties": {\<newline>'' @
     ''              "id" : {\<newline>'' @
     ''                  "description": "Entity ID",\<newline>'' @
     ''                  "type": "string"\<newline>'' @
     ''              },\<newline>'' @
     ''              "name" : {\<newline>'' @
     ''                  "description": "Entity name",\<newline>'' @
     ''                  "type": "string"\<newline>'' @
     ''              },\<newline>'' @
     ''              "key-type": {\<newline>'' @
     [CHR 0x09] @
     [CHR 0x09] @
     [CHR 0x09] @
     [CHR 0x09] @
     ''  "description": "Key type. Either rsa or ec",\<newline>'' @
     [CHR 0x09] @
     [CHR 0x09] @
     [CHR 0x09] @
     [CHR 0x09] @
     ''  "type": "string"\<newline>'' @
     ''              },\<newline>'' @
     ''              "public-signing-key" : {\<newline>'' @
     ''                  "description": "Public signing key",\<newline>'' @
     ''                  "type": "string"\<newline>'' @
     ''              },\<newline>'' @
     ''              "private-signing-key" : {\<newline>'' @
     ''                  "description": "Private signing key",\<newline>'' @
     ''                  "type": "string"\<newline>'' @
     ''              },\<newline>'' @
     ''              "public-encryption-key" : {\<newline>'' @
     ''                  "description": "Public encryption key",\<newline>'' @
     ''                  "type": "string"\<newline>'' @
     ''              },\<newline>'' @
     ''              "private-encryption-key" : {\<newline>'' @
     ''                  "description": "Private encryption key",\<newline>'' @
     ''                  "type": "string"\<newline>'' @
     ''              }\<newline>'' @
     ''          }\<newline>'' @
     ''      }\<newline>'' @
     ''  }\<newline>'' @
     ''}''\<close>

text \<open>
  \<open>New\<close> and \<open>Public\<close> allocate an entity and write to it through the pointer, so
  they run on a store: a list of entities, a pointer being an index below its length.
  \<open>new(Entity)\<close> appends the zero value. \<open>FromJson\<close> is a method of the embedded
  document and sees its \<open>Schema\<close> and \<open>Default\<close>.
\<close>

type_synonym heap = "Entity list"

definition zero_EntityData :: EntityData where
  "zero_EntityData =
     \<lparr>Scope = [], Version = 0, Type = [], Options = [], Body_Id = [], Body_Name = [],
      Body_KeyType = [], Body_PublicSigningKey = [], Body_PrivateSigningKey = [],
      Body_PublicEncryptionKey = [], Body_PrivateEncryptionKey = []\<rparr>"

definition zero_Entity :: Entity where
  "zero_Entity = \<lparr>Schema = [], Default = [], Data = zero_EntityData\<rparr>"

definition Load :: "deps \<Rightarrow> heap \<Rightarrow> nat \<Rightarrow> string \<Rightarrow> heap \<times> error option" where
  "Load d h p jsonString =
     (case FromJson d (Schema (h ! p)) (Default (h ! p)) jsonString of
        Inl e \<Rightarrow> (h, Some (CouldNotLoadEntityJson e))
      | Inr data \<Rightarrow> (h[p := (h ! p)\<lparr>Data := data\<rparr>], None))"

text \<open>The method \<open>entity.New\<close>.\<close>

definition Entity_New :: "deps \<Rightarrow> heap \<Rightarrow> nat \<Rightarrow> string \<Rightarrow> heap \<times> error option" where
  "Entity_New d h p jsonString =
     (let h1 = h[p := (h ! p)\<lparr>Schema := EntitySchema\<rparr>];
          h2 = h1[p := (h1 ! p)\<lparr>Default := EntityDefault\<rparr>]
      in case Load d h2 p jsonString of
        (h3, Some e) \<Rightarrow> (h3, Some (CouldNotCreateNewEntity e))
      | (h3, None) \<Rightarrow> (h3, None))"

text \<open>The function \<open>New\<close>: the pointer to the new entity, or the error.\<close>

definition New :: "deps \<Rightarrow> heap \<Rightarrow> string \<Rightarrow> heap \<times> (error + nat)" where
  "New d h jsonString =
     (let entity = length h;
          h0 = h @ [zero_Entity]
      in case Entity_New d h0 entity jsonString of
        (h1, Some e) \<Rightarrow> (h1, Inl (CouldntCreateNewEntity e))
      | (h1, None) \<Rightarrow> (h1, Inr entity))"

definition Dump :: "deps \<Rightarrow> Entity \<Rightarrow> string" where
  "Dump d entity =
     (case ToJson d (Data entity) of
        Inl e \<Rightarrow> []
      | Inr jsonString \<Rightarrow> jsonString)"

definition Public :: "deps \<Rightarrow> heap \<Rightarrow> nat \<Rightarrow> heap \<times> (error + nat)" where
  "Public d h entity =
     (let selfJson = Dump d (h ! entity)
      in case New d h selfJson of
        (h1, Inl e) \<Rightarrow> (h1, Inl (CouldNotCreatePublicEntity e))
      | (h1, Inr publicEntity) \<Rightarrow>
     (let h2 = h1[publicEntity :=
                   (h1 ! publicEntity)\<lparr>Data := (Data (h1 ! publicEntity))
                      \<lparr>Body_PrivateSigningKey := []\<rparr>\<rparr>];
          h3 = h2[publicEntity :=
                   (h2 ! publicEntity)\<lparr>Data := (Data (h2 ! publicEntity))
                      \<lparr>Body_PrivateEncryptionKey := []\<rparr>\<rparr>]
      in (h3, Inr publicEntity)))"

definition DumpPublic :: "deps \<Rightarrow> heap \<Rightarrow> nat \<Rightarrow> heap \<times> string" where
  "DumpPublic d h entity =
     (case Public d h entity of
        (h1, Inl e) \<Rightarrow> (h1, [])
      | (h1, Inr public) \<Rightarrow> (h1, Dump d (h1 ! public)))"

section \<open>Encrypting and decrypting\<close>

definition Decrypt :: "deps \<Rightarrow> Entity \<Rightarrow> Container \<Rightarrow> string outcome" where
  "Decrypt d entity container =
     (if IsEncrypted d container = False
      then \<lparr>val = [], err = Some ContainerIsntEncrypted, calls = [CallIsEncrypted container]\<rparr>
      else
     (let id' = Body_Id (Data entity);
          key = Body_PrivateEncryptionKey (Data entity);
          t = [CallIsEncrypted container, CallDecrypt container id' key]
      in case Container_Decrypt d container id' key of
        Inl e \<Rightarrow> \<lparr>val = [], err = Some (CouldNotDecrypt e), calls = t\<rparr>
      | Inr decryptedJson \<Rightarrow> \<lparr>val = decryptedJson, err = None, calls = t\<rparr>))"

text \<open>
  The \<open>range\<close> loop of \<open>Encrypt\<close> over the slice: each entity stores its public
  encryption key under its id; reading through a \<open>nil\<close> pointer panics (\<open>None\<close>).
\<close>

fun Encrypt_range ::
  "(string \<rightharpoonup> string) \<Rightarrow> Entity option list \<Rightarrow> (string \<rightharpoonup> string) option" where
  "Encrypt_range encryptionKeys [] = Some encryptionKeys"
| "Encrypt_range encryptionKeys (None # es) = None"
| "Encrypt_range encryptionKeys (Some e # es) =
     Encrypt_range (encryptionKeys(Body_Id (Data e) \<mapsto> Body_PublicEncryptionKey (Data e))) es"

text \<open>
  \<open>Encrypt\<close>: \<open>None\<close> is a run-time panic, \<open>r\<close> the random bytes of the encryption.
\<close>

definition Encrypt ::
  "deps \<Rightarrow> bytes \<Rightarrow> Entity \<Rightarrow> string \<Rightarrow> entities_arg \<Rightarrow> Container option outcome option" where
  "Encrypt d r entity content entities =
     (case (case entities of
              EntitySlice es \<Rightarrow> map_option Inr (Encrypt_range Map.empty es)
            | NilArg \<Rightarrow>
                Some (Inr (Map.empty(Body_Id (Data entity) \<mapsto>
                                      Body_PublicEncryptionKey (Data entity))))
            | OtherArg t \<Rightarrow> Some (Inl (InvalidEntitiesGiven t))) of
        None \<Rightarrow> None
      | Some (Inl e) \<Rightarrow> Some \<lparr>val = None, err = Some e, calls = []\<rparr>
      | Some (Inr encryptionKeys) \<Rightarrow> Some
     (case NewContainer d of
        Inl e \<Rightarrow> \<lparr>val = None, err = Some (CouldNotCreateContainer e), calls = [CallNewContainer]\<rparr>
      | Inr container \<Rightarrow>
     (let c1 = container\<lparr>Options_Source := Body_Id (Data entity)\<rparr>;
          t = [CallNewContainer, CallEncrypt c1 content encryptionKeys]
      in case Container_Encrypt d r c1 content encryptionKeys of
        Inl e \<Rightarrow> \<lparr>val = None, err = Some (CouldNotEncryptContainer e), calls = t\<rparr>
      | Inr c2 \<Rightarrow> \<lparr>val = Some c2, err = None, calls = t\<rparr>)))"

section \<open>Composite operations\<close>

definition SignString :: "deps \<Rightarrow> bytes \<Rightarrow> Entity \<Rightarrow> string \<Rightarrow> Container option outcome" where
  "SignString d r entity content =
     (case NewContainer d of
        Inl e \<Rightarrow> \<lparr>val = None, err = Some (CouldNotCreateContainer e), calls = [CallNewContainer]\<rparr>
      | Inr container \<Rightarrow>
     (let c1 = container\<lparr>Options_Source := Body_Id (Data entity)\<rparr>;
          c2 = c1\<lparr>Data_Body := content\<rparr>;
          s = Sign d r entity c2
      in case err s of
        Some e \<Rightarrow> \<lparr>val = None, err = Some (CouldNotSignContainer e),
                   calls = CallNewContainer # calls s\<rparr>
      | None \<Rightarrow> \<lparr>val = Some (val s), err = None, calls = CallNewContainer # calls s\<rparr>))"

definition AuthenticateString ::
  "deps \<Rightarrow> bytes \<Rightarrow> Entity \<Rightarrow> string \<Rightarrow> string \<Rightarrow> string \<Rightarrow> Container option outcome" where
  "AuthenticateString d r entity content id' key =
     (case NewContainer d of
        Inl e \<Rightarrow> \<lparr>val = None, err = Some (CouldNotCreateContainer e), calls = [CallNewContainer]\<rparr>
      | Inr container \<Rightarrow>
     (let c1 = container\<lparr>Options_Source := Body_Id (Data entity)\<rparr>;
          c2 = c1\<lparr>Data_Body := content\<rparr>;
          a = Authenticate d r entity c2 id' key
      in case err a of
        Some e \<Rightarrow> \<lparr>val = None, err = Some (CouldNotSignContainer e),
                   calls = CallNewContainer # calls a\<rparr>
      | None \<Rightarrow> \<lparr>val = Some (val a), err = None, calls = CallNewContainer # calls a\<rparr>))"

text \<open>
  In the two functions below \<open>r1\<close> is the random bytes of the encryption and \<open>r2\<close>
  those of the signature or of the salt.
\<close>

definition EncryptThenSignString ::
  "deps \<Rightarrow> bytes \<Rightarrow> bytes \<Rightarrow> Entity \<Rightarrow> string \<Rightarrow> entities_arg \<Rightarrow> Container option outcome option" where
  "EncryptThenSignString d r1 r2 entity content entities =
     (case Encrypt d r1 entity content entities of
        None \<Rightarrow> None
      | Some enc \<Rightarrow>
     (case err enc of
        Some e \<Rightarrow> Some \<lparr>val = None, err = Some (CouldntEncryptContent e), calls = calls enc\<rparr>
      | None \<Rightarrow>
     (case val enc of
        None \<Rightarrow> None
      | Some container \<Rightarrow>
     (let s = Sign d r2 entity container
      in case err s of
        Some e \<Rightarrow> Some \<lparr>val = None, err = Some (CouldNotSignContainer e),
                        calls = calls enc @ calls s\<rparr>
      | None \<Rightarrow> Some \<lparr>val = Some (val s), err = None, calls = calls enc @ calls s\<rparr>))))"

definition EncryptThenAuthenticateString ::
  "deps \<Rightarrow> bytes \<Rightarrow> bytes \<Rightarrow> Entity \<Rightarrow> string \<Rightarrow> entities_arg \<Rightarrow> string \<Rightarrow> string \<Rightarrow>
   Container option outcome option" where
  "EncryptThenAuthenticateString d r1 r2 entity content entities id' key =
     (case Encrypt d r1 entity content entities of
        None \<Rightarrow> None
      | Some enc \<Rightarrow>
     (case err enc of
        Some e \<Rightarrow> Some \<lparr>val = None, err = Some (CouldntEncryptContent e), calls = calls enc\<rparr>
      | None \<Rightarrow>
     (case val enc of
        None \<Rightarrow> None
      | Some container \<Rightarrow>
     (let a = Authenticate d r2 entity container id' key
      in case err a of
        Some e \<Rightarrow> Some \<lparr>val = None, err = Some (CouldNotAuthenticateContainer e),
                        calls = calls enc @ calls a\<rparr>
      | None \<Rightarrow> Some \<lparr>val = Some (val a), err = None, calls = calls enc @ calls a\<rparr>))))"

text \<open>
  The two functions below return the plaintext; the container as the call leaves it
  is the first component of \<open>val\<close>, the plaintext the second.
\<close>

definition VerifyThenDecrypt :: "deps \<Rightarrow> Entity \<Rightarrow> Container \<Rightarrow> (Container \<times> string) outcome" where
  "VerifyThenDecrypt d entity container =
     (let v = Verify d entity container
      in case err v of
        Some e \<Rightarrow> \<lparr>val = (val v, []), err = Some (CouldNotVerifyContainer e), calls = calls v\<rparr>
      | None \<Rightarrow>
     (let dec = Decrypt d entity (val v)
      in case err dec of
        Some e \<Rightarrow> \<lparr>val = (val v, []), err = Some (CouldNotDecryptContainer e),
                   calls = calls v @ calls dec\<rparr>
      | None \<Rightarrow> \<lparr>val = (val v, val dec), err = None, calls = calls v @ calls dec\<rparr>))"

definition VerifyAuthenticationThenDecrypt ::
  "deps \<Rightarrow> bytes \<Rightarrow> Entity \<Rightarrow> Container \<Rightarrow> string \<Rightarrow> (Container \<times> string) outcome" where
  "VerifyAuthenticationThenDecrypt d r entity container key =
     (let v = VerifyAuthentication d r entity container key
      in case err v of
        Some e \<Rightarrow> \<lparr>val = (val v, []), err = Some (CouldNotVerifyContainer e), calls = calls v\<rparr>
      | None \<Rightarrow>
     (let dec = Decrypt d entity (val v)
      in case err dec of
        Some e \<Rightarrow> \<lparr>val = (val v, []), err = Some (CouldNotDecryptContainer e),
                   calls = calls v @ calls dec\<rparr>
      | None \<Rightarrow> \<lparr>val = (val v, val dec), err = None, calls = calls v @ calls dec\<rparr>))"

section \<open>A small instance of the two packages\<close>

text \<open>
  To run the operations on concrete inputs the parameters need values. The instance
  below is symbolic: a key pair is a tag followed by a shared name, a signature or
  authentication code spells out the key name and the message, the derived key spells
  out the secret and the salt, base64 is a one-character prefix, the serialisation of
  a container lists its fields with the body last, and an entity document is its
  fields one per line with the version in unary.
\<close>

definition unary :: "int \<Rightarrow> string" where
  "unary n = replicate (nat n) CHR ''1''"

definition frame :: "string \<Rightarrow> string" where
  "frame s = replicate (length s) CHR ''1'' @ CHR ''0'' # s"

definition sample_GenerateRSAKey :: "bytes \<Rightarrow> error + rsa_PrivateKey" where
  "sample_GenerateRSAKey r =
     (if r = [] then Inl (LibError ''no random bytes'')
      else Inr \<lparr>rsa_PublicKey = \<lparr>rsa_N = int (length r), rsa_E = 65537\<rparr>,
                rsa_D = int (length r), rsa_Primes = []\<rparr>)"

definition sample_GenerateECKey :: "bytes \<Rightarrow> error + ecdsa_PrivateKey" where
  "sample_GenerateECKey r =
     (if r = [] then Inl (LibError ''no random bytes'')
      else Inr \<lparr>ecdsa_PublicKey = \<lparr>ecdsa_Curve = ''P'', ecdsa_X = int (length r), ecdsa_Y = 0\<rparr>,
                ecdsa_D = int (length r)\<rparr>)"

definition sample_Validate :: "rsa_PrivateKey \<Rightarrow> error option" where
  "sample_Validate k =
     (if rsa_D k = rsa_N (rsa_PublicKey k) then None else Some (LibError ''invalid key''))"

fun sample_PemEncodePublic :: "public_key \<Rightarrow> error + bytes" where
  "sample_PemEncodePublic (RSAPublic k) = Inr (CHR ''P'' # unary (rsa_N k))"
| "sample_PemEncodePublic (ECPublic k) = Inr (CHR ''P'' # unary (ecdsa_X k))"

fun sample_PemEncodePrivate :: "private_key \<Rightarrow> error + bytes" where
  "sample_PemEncodePrivate (RSAPrivate k) = Inr (CHR ''S'' # unary (rsa_D k))"
| "sample_PemEncodePrivate (ECPrivate k) = Inr (CHR ''S'' # unary (ecdsa_D k))"

definition sample_NewSignature :: "string \<Rightarrow> Signed" where
  "sample_NewSignature m = \<lparr>Message = [], Mode = m, Signature = []\<rparr>"

definition sample_Sign :: "bytes \<Rightarrow> string \<Rightarrow> string \<Rightarrow> Signed \<Rightarrow> error + Signed" where
  "sample_Sign r message privateKey signature =
     (if privateKey = [] then Inl (LibError ''no private key'')
      else Inr (signature\<lparr>Message := message,
                          Signature := CHR ''s'' # frame (tl privateKey) @ message\<rparr>))"

definition sample_Verify :: "Signed \<Rightarrow> string \<Rightarrow> error option" where
  "sample_Verify signature publicKey =
     (if publicKey \<noteq> [] \<and> Signature signature = CHR ''s'' # frame (tl publicKey) @ Message signature
      then None else Some (LibError ''verification failed''))"

definition sample_ExpandKey :: "bytes \<Rightarrow> bytes \<Rightarrow> bytes option \<Rightarrow> error + (bytes \<times> bytes)" where
  "sample_ExpandKey r key salt =
     (case salt of
        Some s \<Rightarrow> Inr (frame key @ s, s)
      | None \<Rightarrow>
          if r = [] then Inl (LibError ''no random bytes'') else Inr (frame key @ r, r))"

definition sample_Base64Encode :: "bytes \<Rightarrow> bytes" where
  "sample_Base64Encode b = CHR ''='' # b"

fun sample_Base64Decode :: "bytes \<Rightarrow> bytes option \<times> error option" where
  "sample_Base64Decode [] = (None, Some (LibError ''illegal base64 data''))"
| "sample_Base64Decode (c # b) =
     (if c = CHR ''='' then (Some b, None) else (None, Some (LibError ''illegal base64 data'')))"

definition sample_HMAC :: "bytes \<Rightarrow> bytes \<Rightarrow> Signed \<Rightarrow> error + Signed" where
  "sample_HMAC message key signature =
     Inr (signature\<lparr>Message := message, Signature := CHR ''m'' # frame key @ message\<rparr>)"

definition sample_HMACVerify :: "bytes \<Rightarrow> bytes \<Rightarrow> Signed \<Rightarrow> error option" where
  "sample_HMACVerify message key mac =
     (if Signature mac = CHR ''m'' # frame key @ message
      then None else Some (LibError ''MAC mismatch''))"

definition sample_Container :: Container where
  "sample_Container =
     \<lparr>Options_Source = [], Options_SignatureMode = [], Options_Signature = [],
      Options_SignatureInputs = Map.empty, Data_Body = [], Opaque = []\<rparr>"

definition sample_Dump :: "Container \<Rightarrow> string" where
  "sample_Dump c =
     frame (Options_Source c) @ frame (Options_SignatureMode c) @ frame (Options_Signature c) @
     frame (map_index (Options_SignatureInputs c) ''key-id'') @
     frame (map_index (Options_SignatureInputs c) ''signature-salt'') @
     frame (Opaque c) @ Data_Body c"

definition sample_Encrypt ::
  "bytes \<Rightarrow> Container \<Rightarrow> string \<Rightarrow> (string \<rightharpoonup> string) \<Rightarrow> error + Container" where
  "sample_Encrypt r c content keys = Inr (c\<lparr>Data_Body := rev content, Opaque := ''encrypted''\<rparr>)"

definition sample_Decrypt :: "Container \<Rightarrow> string \<Rightarrow> string \<Rightarrow> error + string" where
  "sample_Decrypt c id' key =
     (if key = [] then Inl (LibError ''no private key'') else Inr (rev (Data_Body c)))"

fun split_lines :: "string \<Rightarrow> string list" where
  "split_lines [] = [] # []"
| "split_lines (x # xs) =
     (if x = CHR 0x0A then [] # split_lines xs
      else (case split_lines xs of
              [] \<Rightarrow> [x] # []
            | w # ws \<Rightarrow> (x # w) # ws))"

definition sample_ToJson :: "EntityData \<Rightarrow> error + string" where
  "sample_ToJson x =
     (if Version x < 0 then Inl (LibError ''negative version'')
      else Inr (Scope x @ CHR 0x0A # unary (Version x) @ CHR 0x0A # Type x @ CHR 0x0A #
                Options x @ CHR 0x0A # Body_Id x @ CHR 0x0A # Body_Name x @ CHR 0x0A #
                Body_KeyType x @ CHR 0x0A # Body_PublicSigningKey x @ CHR 0x0A #
                Body_PrivateSigningKey x @ CHR 0x0A # Body_PublicEncryptionKey x @ CHR 0x0A #
                Body_PrivateEncryptionKey x))"

definition sample_FromJson :: "string \<Rightarrow> string \<Rightarrow> string \<Rightarrow> error + EntityData" where
  "sample_FromJson schema dflt jsonString =
     (case split_lines jsonString of
        [a, b, c, e, f, g, h, i, j, k, l] \<Rightarrow>
          Inr \<lparr>Scope = a, Version = int (length b), Type = c, Options = e, Body_Id = f,
               Body_Name = g, Body_KeyType = h, Body_PublicSigningKey = i,
               Body_PrivateSigningKey = j, Body_PublicEncryptionKey = k,
               Body_PrivateEncryptionKey = l\<rparr>
      | _ \<Rightarrow> Inl (LibError ''document does not match the schema''))"

definition sample_deps :: deps where
  "sample_deps =
     \<lparr>KeyTypeRSA = ''rsa'', KeyTypeEC = ''ec'',
      SignatureModeSha256Rsa = ''RSA-SHA256'',
      SignatureModeSha256Ecdsa = ''ECDSA-SHA256'',
      SignatureModeSha256Hmac = ''HMAC-SHA256'',
      GenerateRSAKey = sample_GenerateRSAKey,
      GenerateECKey = sample_GenerateECKey,
      rsa_Precompute = (\<lambda>k. k),
      rsa_Validate = sample_Validate,
      PemEncodePublic = sample_PemEncodePublic,
      PemEncodePrivate = sample_PemEncodePrivate,
      NewSignature = sample_NewSignature,
      crypto_Sign = sample_Sign,
      crypto_Verify = sample_Verify,
      ExpandKey = sample_ExpandKey,
      Base64Encode = sample_Base64Encode,
      Base64Decode = sample_Base64Decode,
      crypto_HMAC = sample_HMAC,
      HMACVerify = sample_HMACVerify,
      NewContainer = Inr sample_Container,
      Container_Dump = sample_Dump,
      IsSigned = (\<lambda>c. Options_Signature c \<noteq> []),
      IsEncrypted = (\<lambda>c. Opaque c \<noteq> []),
      Container_Encrypt = sample_Encrypt,
      Container_Decrypt = sample_Decrypt,
      ToJson = sample_ToJson,
      FromJson = sample_FromJson\<rparr>"

text \<open>Two entities to run the operations on, before their keys are generated.\<close>

definition alice :: Entity where
  "alice = \<lparr>Schema = EntitySchema, Default = EntityDefault,
            Data = zero_EntityData\<lparr>Scope := ''pki.io'', Version := 1, Type := ''entity-document'',
                     Body_Id := ''a'', Body_Name := ''alice'', Body_KeyType := ''ec''\<rparr>\<rparr>"

definition bob :: Entity where
  "bob = \<lparr>Schema = EntitySchema, Default = EntityDefault,
          Data = zero_EntityData\<lparr>Scope := ''pki.io'', Version := 1, Type := ''entity-document'',
                   Body_Id := ''b'', Body_Name := ''bob'', Body_KeyType := ''rsa''\<rparr>\<rparr>"

text \<open>
  Inputs the operations are run on below: a container with a signature nobody made,
  one that still holds an old signature, alice and bob with their keys generated,
  what they sign and authenticate, what \<open>Public\<close> makes of alice on the store that
  holds her alone, an encrypted container, and one whose recorded salt is not base64.
\<close>

definition forged :: Container where
  "forged = sample_Container\<lparr>Options_Signature := ''forged'', Opaque := ''encrypted''\<rparr>"

definition stale :: Container where
  "stale = sample_Container\<lparr>Options_Signature := ''old signature'', Data_Body := ''hello''\<rparr>"

definition alice_keys :: Entity where
  "alice_keys = fst (GenerateKeys sample_deps ''xy'' ''xyz'' alice)"

definition bob_keys :: Entity where
  "bob_keys = fst (GenerateKeys sample_deps ''pqrs'' ''pqrst'' bob)"

definition signed_hello :: Container where
  "signed_hello =
     val (Sign sample_deps ''r'' alice_keys
            (sample_Container\<lparr>Options_Source := ''a'', Data_Body := ''hello''\<rparr>))"

definition signed_by_bob :: Container where
  "signed_by_bob =
     val (Sign sample_deps ''r'' bob_keys
            (sample_Container\<lparr>Options_Source := ''b'', Data_Body := ''hello''\<rparr>))"

definition pinged :: Container where
  "pinged =
     val (Authenticate sample_deps ''salt'' alice
            (sample_Container\<lparr>Options_Source := ''a'', Data_Body := ''ping''\<rparr>) ''keyA'' ''ab'')"

definition alice_public :: Entity where
  "alice_public = fst (Public sample_deps [alice_keys] 0) ! 1"

definition sealed :: Container where
  "sealed = sample_Container\<lparr>Options_Source := ''b'', Data_Body := ''olleh'',
                             Opaque := ''encrypted''\<rparr>"

definition bad_salt :: Container where
  "bad_salt = sample_Container\<lparr>Options_Signature := ''code'',
                Options_SignatureInputs := [''key-id'' \<mapsto> ''keyA'', ''signature-salt'' \<mapsto> ''!!'']\<rparr>"

section \<open>What is asked of the two packages\<close>

text \<open>
  The recipient list of a slice of entities, in the order of the slice: the pairs
  that the loop of \<open>Encrypt\<close> stores one after the other.
\<close>

definition recipient_pairs :: "Entity list \<Rightarrow> (string \<times> string) list" where
  "recipient_pairs es = map (\<lambda>e. (Body_Id (Data e), Body_PublicEncryptionKey (Data e))) es"

text \<open>
  The perturbation of the round-trip property: bit \<open>i\<close> of a string, counted from the
  lowest bit of the first byte, is flipped; a bit past the end flips nothing.
\<close>

fun flip_char :: "nat \<Rightarrow> char \<Rightarrow> char" where
  "flip_char k (Char b0 b1 b2 b3 b4 b5 b6 b7) =
     (if k = 0 then Char (\<not> b0) b1 b2 b3 b4 b5 b6 b7
      else if k = 1 then Char b0 (\<not> b1) b2 b3 b4 b5 b6 b7
      else if k = 2 then Char b0 b1 (\<not> b2) b3 b4 b5 b6 b7
      else if k = 3 then Char b0 b1 b2 (\<not> b3) b4 b5 b6 b7
      else if k = 4 then Char b0 b1 b2 b3 (\<not> b4) b5 b6 b7
      else if k = 5 then Char b0 b1 b2 b3 b4 (\<not> b5) b6 b7
      else if k = 6 then Char b0 b1 b2 b3 b4 b5 (\<not> b6) b7
      else Char b0 b1 b2 b3 b4 b5 b6 (\<not> b7))"

definition flip_body_bit :: "nat \<Rightarrow> string \<Rightarrow> string" where
  "flip_body_bit i s = s[i div 8 := flip_char (i mod 8) (s ! (i div 8))]"

text \<open>The public key inside a private key, as \<open>GenerateKeys\<close> takes it.\<close>

fun public_of :: "private_key \<Rightarrow> public_key" where
  "public_of (RSAPrivate k) = RSAPublic (rsa_PublicKey k)"
| "public_of (ECPrivate k) = ECPublic (ecdsa_PublicKey k)"

text \<open>
  A private key that key generation can produce, with the signature mode \<open>Sign\<close>
  uses for its type: an RSA key that was generated, precomputed and found valid, or
  an EC key that was generated.
\<close>

definition generated :: "deps \<Rightarrow> private_key \<Rightarrow> string \<Rightarrow> bool" where
  "generated d k m \<longleftrightarrow>
     (\<exists>r k0. GenerateRSAKey d r = Inr k0 \<and> rsa_Validate d (rsa_Precompute d k0) = None \<and>
             k = RSAPrivate (rsa_Precompute d k0) \<and> m = SignatureModeSha256Rsa d) \<or>
     (\<exists>r k1. GenerateECKey d r = Inr k1 \<and> k = ECPrivate k1 \<and> m = SignatureModeSha256Ecdsa d)"

text \<open>
  Modelled from the spec: \<open>crypto.Sign\<close>, \<open>crypto.Verify\<close>, \<open>crypto.NewSignature\<close>, the
  PEM encoders and the container's \<open>Dump\<close> and \<open>IsSigned\<close> are not in entity.go. The
  spec asks of them asymmetric sign and verify, a deterministic serialisation, and
  \<open>isSigned\<close> as "the signature is not empty". As a contract on the parameters:
  \<^item> \<open>IsSigned\<close> holds exactly when the signature field is not empty;
  \<^item> two containers that differ in the body alone have different serialisations;
  \<^item> a signature made by \<open>crypto.Sign\<close> under a generated private key, in the mode of
    its type, is not empty, leaves the mode of the \<open>Signed\<close> value as it was, and
    \<open>crypto.Verify\<close> under the matching public key accepts it for the message that
    was signed and for no other message.
  The last clause, "for no other message", is the idealisation of unforgeability:
  it holds of a signature scheme only up to collisions of its hash.
\<close>

definition signing_contract :: "deps \<Rightarrow> bool" where
  "signing_contract d \<longleftrightarrow>
     (\<forall>c. IsSigned d c = (Options_Signature c \<noteq> [])) \<and>
     (\<forall>c b b'. Container_Dump d (c\<lparr>Data_Body := b\<rparr>) = Container_Dump d (c\<lparr>Data_Body := b'\<rparr>)
        \<longrightarrow> b = b') \<and>
     (\<forall>k m priv pub r msg sg.
        generated d k m \<and> PemEncodePrivate d k = Inr priv \<and>
        PemEncodePublic d (public_of k) = Inr pub \<and>
        crypto_Sign d r msg priv (NewSignature d m) = Inr sg \<longrightarrow>
          Signature sg \<noteq> [] \<and> Mode sg = Mode (NewSignature d m) \<and>
          (\<forall>msg'. (crypto_Verify d \<lparr>Message = msg', Mode = [], Signature = Signature sg\<rparr> pub = None)
                    = (msg' = msg)))"

text \<open>
  Modelled from the spec: \<open>crypto.ExpandKey\<close>, \<open>crypto.HMAC\<close>, \<open>crypto.HMACVerify\<close> and
  the base64 codec are not in entity.go. The spec asks of them a key expansion that
  returns the derived key and the salt used, the same derivation when the salt is
  supplied, HMAC compute and verify, and base64 encode and decode. As a contract on
  the parameters:
  \<^item> decoding an encoded salt gives the salt back, without error;
  \<^item> expanding any secret with a salt that an expansion has produced succeeds, and
    gives the key of that expansion exactly when the secret is the same;
  \<^item> expanding the same secret with another salt gives another key;
  \<^item> \<open>HMACVerify\<close> accepts a code made by \<open>crypto.HMAC\<close> for the message and key it
    was made with, and for no other message or key.
  "Another key" and "no other" are idealisations: they hold of a key derivation and
  of a MAC only up to collisions.
\<close>

definition authentication_contract :: "deps \<Rightarrow> bool" where
  "authentication_contract d \<longleftrightarrow>
     (\<forall>s. Base64Decode d (Base64Encode d s) = (Some s, None)) \<and>
     (\<forall>r raw k s r' raw'.
        ExpandKey d r raw None = Inr (k, s) \<longrightarrow>
          (\<exists>k' s'. ExpandKey d r' raw' (Some s) = Inr (k', s') \<and> (k' = k) = (raw' = raw))) \<and>
     (\<forall>r raw k s r' s2 k' s'.
        ExpandKey d r raw None = Inr (k, s) \<and> ExpandKey d r' raw (Some s2) = Inr (k', s') \<and>
        s2 \<noteq> s \<longrightarrow> k' \<noteq> k) \<and>
     (\<forall>msg k sg.
        crypto_HMAC d msg k (NewSignature d (SignatureModeSha256Hmac d)) = Inr sg \<longrightarrow>
          (\<forall>msg' k'.
             (HMACVerify d msg' k'
                ((NewSignature d (SignatureModeSha256Hmac d))\<lparr>Signature := Signature sg\<rparr>) = None)
             = (msg' = msg \<and> k' = k)))"

section \<open>Evaluation on the instance\<close>

declare hex_DecodeString.simps [simp del]

lemmas sample_simps = sample_deps_def sample_GenerateRSAKey_def sample_GenerateECKey_def
  sample_Validate_def sample_NewSignature_def sample_Sign_def sample_Verify_def
  sample_ExpandKey_def sample_Base64Encode_def sample_HMAC_def sample_HMACVerify_def
  sample_Container_def sample_Dump_def sample_Encrypt_def sample_Decrypt_def
  sample_ToJson_def sample_FromJson_def unary_def frame_def map_index_def new_Signed_def

lemma hex_ab: "hex_DecodeString ''ab'' = Inr [CHR 0xAB]"
  by code_simp

lemma hex_zz: "hex_DecodeString ''zz'' = Inl (HexInvalidByte CHR ''z'')"
  by code_simp

lemma alice_keys_Data:
  "Data alice_keys =
     \<lparr>Scope = ''pki.io'', Version = 1, Type = ''entity-document'', Options = [],
      Body_Id = ''a'', Body_Name = ''alice'', Body_KeyType = ''ec'',
      Body_PublicSigningKey = ''P11'', Body_PrivateSigningKey = ''S11'',
      Body_PublicEncryptionKey = ''P111'', Body_PrivateEncryptionKey = ''S111''\<rparr>"
  by code_simp

lemma bob_keys_Data:
  "Data bob_keys =
     \<lparr>Scope = ''pki.io'', Version = 1, Type = ''entity-document'', Options = [],
      Body_Id = ''b'', Body_Name = ''bob'', Body_KeyType = ''rsa'',
      Body_PublicSigningKey = ''P1111'', Body_PrivateSigningKey = ''S1111'',
      Body_PublicEncryptionKey = ''P11111'', Body_PrivateEncryptionKey = ''S11111''\<rparr>"
  by code_simp

lemma alice_public_Data:
  "Data alice_public =
     \<lparr>Scope = ''pki.io'', Version = 1, Type = ''entity-document'', Options = [],
      Body_Id = ''a'', Body_Name = ''alice'', Body_KeyType = ''ec'',
      Body_PublicSigningKey = ''P11'', Body_PrivateSigningKey = [],
      Body_PublicEncryptionKey = ''P111'', Body_PrivateEncryptionKey = []\<rparr>"
  by code_simp

lemma sample_IsSigned: "IsSigned sample_deps c = (Options_Signature c \<noteq> [])"
  by (simp add: sample_deps_def)

lemma sample_NewSignature_Mode: "Mode (NewSignature sample_deps m) = m"
  by (simp add: sample_deps_def sample_NewSignature_def)

lemma sample_Sign_Mode: "crypto_Sign sample_deps r msg k s = Inr s' \<Longrightarrow> Mode s' = Mode s"
  by (auto simp: sample_deps_def sample_Sign_def split: if_splits)

section \<open>Clearing the signature before signing\<close>

text \<open>
  C3. In every call of \<open>Sign\<close> and of \<open>Authenticate\<close> the container that is serialised
  has an empty \<open>signature\<close> field, and the message handed to the signing primitive
  (\<open>crypto.Sign\<close>, \<open>crypto.HMAC\<close>) is the serialisation of that container. A value
  left in the field by an earlier call therefore never reaches what is signed: the
  calls made, and once something is serialised the whole outcome, are the same
  whatever the field held before.
\<close>

theorem signature_cleared_before_signing:
  "(\<forall>c. CallDump c \<in> set (calls (Sign d r entity container)) \<longrightarrow> Options_Signature c = []) \<and>
   (\<forall>m k s. CallSign m k s \<in> set (calls (Sign d r entity container)) \<longrightarrow>
      (\<exists>c. CallDump c \<in> set (calls (Sign d r entity container)) \<and> m = Container_Dump d c)) \<and>
   calls (Sign d r entity (container\<lparr>Options_Signature := old\<rparr>)) =
     calls (Sign d r entity container) \<and>
   (calls (Sign d r entity container) \<noteq> [] \<longrightarrow>
      Sign d r entity (container\<lparr>Options_Signature := old\<rparr>) = Sign d r entity container) \<and>
   (\<forall>c. CallDump c \<in> set (calls (Authenticate d r entity container id' key)) \<longrightarrow>
      Options_Signature c = []) \<and>
   (\<forall>m k s. CallHMAC m k s \<in> set (calls (Authenticate d r entity container id' key)) \<longrightarrow>
      (\<exists>c. CallDump c \<in> set (calls (Authenticate d r entity container id' key)) \<and>
           m = Container_Dump d c)) \<and>
   calls (Authenticate d r entity (container\<lparr>Options_Signature := old\<rparr>) id' key) =
     calls (Authenticate d r entity container id' key) \<and>
   ((\<exists>m k s. CallHMAC m k s \<in> set (calls (Authenticate d r entity container id' key))) \<longrightarrow>
      Authenticate d r entity (container\<lparr>Options_Signature := old\<rparr>) id' key =
        Authenticate d r entity container id' key)"
proof -
  have s1: "\<forall>c. CallDump c \<in> set (calls (Sign d r entity container)) \<longrightarrow> Options_Signature c = []"
    by (auto simp: Sign_def Let_def split: option.splits sum.splits if_splits)
  have s2: "\<forall>m k s. CallSign m k s \<in> set (calls (Sign d r entity container)) \<longrightarrow>
      (\<exists>c. CallDump c \<in> set (calls (Sign d r entity container)) \<and> m = Container_Dump d c)"
    by (auto simp: Sign_def Let_def split: option.splits sum.splits if_splits)
  have s3: "calls (Sign d r entity (container\<lparr>Options_Signature := old\<rparr>)) =
     calls (Sign d r entity container)"
    by (auto simp: Sign_def Let_def split: option.splits sum.splits if_splits)
  have s4: "calls (Sign d r entity container) \<noteq> [] \<longrightarrow>
      Sign d r entity (container\<lparr>Options_Signature := old\<rparr>) = Sign d r entity container"
    by (auto simp: Sign_def Let_def split: option.splits sum.splits if_splits)
  have a1: "\<forall>c. CallDump c \<in> set (calls (Authenticate d r entity container id' key)) \<longrightarrow>
      Options_Signature c = []"
    by (auto simp: Authenticate_def Let_def split: option.splits sum.splits if_splits prod.splits)
  have a2: "\<forall>m k s. CallHMAC m k s \<in> set (calls (Authenticate d r entity container id' key)) \<longrightarrow>
      (\<exists>c. CallDump c \<in> set (calls (Authenticate d r entity container id' key)) \<and>
           m = Container_Dump d c)"
    by (auto simp: Authenticate_def Let_def split: option.splits sum.splits if_splits prod.splits)
  have a3: "calls (Authenticate d r entity (container\<lparr>Options_Signature := old\<rparr>) id' key) =
     calls (Authenticate d r entity container id' key)"
    by (auto simp: Authenticate_def Let_def split: option.splits sum.splits if_splits prod.splits)
  have a4: "(\<exists>m k s. CallHMAC m k s \<in> set (calls (Authenticate d r entity container id' key))) \<longrightarrow>
      Authenticate d r entity (container\<lparr>Options_Signature := old\<rparr>) id' key =
        Authenticate d r entity container id' key"
    by (auto simp: Authenticate_def Let_def split: option.splits sum.splits if_splits prod.splits)
  show ?thesis using s1 s2 s3 s4 a1 a2 a3 a4 by blast
qed

text \<open>
  On the instance: alice, keys generated, signs and authenticates a container that
  still holds an old signature.
\<close>

theorem signature_cleared_before_signing_witness:
  "CallDump (stale\<lparr>Options_SignatureMode := ''ECDSA-SHA256'', Options_Signature := []\<rparr>)
     \<in> set (calls (Sign sample_deps ''r'' alice_keys stale)) \<and>
   Options_Signature
     (stale\<lparr>Options_SignatureMode := ''ECDSA-SHA256'', Options_Signature := []\<rparr>) = [] \<and>
   Sign sample_deps ''r'' alice_keys (stale\<lparr>Options_Signature := ''older''\<rparr>) =
     Sign sample_deps ''r'' alice_keys stale \<and>
   (\<exists>m k s. CallHMAC m k s
      \<in> set (calls (Authenticate sample_deps ''r'' alice_keys stale ''keyA'' ''ab''))) \<and>
   Authenticate sample_deps ''r'' alice_keys (stale\<lparr>Options_Signature := ''older''\<rparr>)
       ''keyA'' ''ab'' =
     Authenticate sample_deps ''r'' alice_keys stale ''keyA'' ''ab''"
proof -
  have s: "calls (Sign sample_deps ''r'' alice_keys stale) =
     [CallNewSignature ''ECDSA-SHA256'',
      CallDump (stale\<lparr>Options_SignatureMode := ''ECDSA-SHA256'', Options_Signature := []\<rparr>),
      CallSign (sample_Dump
                 (stale\<lparr>Options_SignatureMode := ''ECDSA-SHA256'', Options_Signature := []\<rparr>))
        ''S11'' \<lparr>Message = [], Mode = ''ECDSA-SHA256'', Signature = []\<rparr>]"
    by (simp add: Sign_def alice_keys_Data stale_def Let_def sample_simps)
  have a: "\<exists>m k s. CallHMAC m k s
      \<in> set (calls (Authenticate sample_deps ''r'' alice_keys stale ''keyA'' ''ab''))"
    by (simp add: Authenticate_def hex_ab stale_def Let_def sample_simps)
  have s': "calls (Sign sample_deps ''r'' alice_keys stale) \<noteq> []"
    by (simp add: s)
  have d: "CallDump (stale\<lparr>Options_SignatureMode := ''ECDSA-SHA256'', Options_Signature := []\<rparr>)
     \<in> set (calls (Sign sample_deps ''r'' alice_keys stale))"
    by (simp add: s)
  show ?thesis
    using d s' a
      signature_cleared_before_signing
        [of sample_deps "''r''" alice_keys stale "''older''" "''keyA''" "''ab''"]
    by blast
qed

section \<open>Composite verification fails fast\<close>

text \<open>
  C4. When the verification step of \<open>VerifyThenDecrypt\<close> or of
  \<open>VerifyAuthenticationThenDecrypt\<close> returns an error, the composite returns that error
  wrapped, the plaintext it returns is empty, and it has made no call beyond those of
  the verification: neither \<open>IsEncrypted\<close> nor the container's \<open>Decrypt\<close> is called.
\<close>

theorem verify_failure_skips_decrypt:
  "(\<forall>e. err (Verify d entity container) = Some e \<longrightarrow>
      err (VerifyThenDecrypt d entity container) = Some (CouldNotVerifyContainer e) \<and>
      snd (val (VerifyThenDecrypt d entity container)) = [] \<and>
      calls (VerifyThenDecrypt d entity container) = calls (Verify d entity container) \<and>
      (\<forall>c. CallIsEncrypted c \<notin> set (calls (VerifyThenDecrypt d entity container))) \<and>
      (\<forall>c i k. CallDecrypt c i k \<notin> set (calls (VerifyThenDecrypt d entity container)))) \<and>
   (\<forall>e. err (VerifyAuthentication d r entity container key) = Some e \<longrightarrow>
      err (VerifyAuthenticationThenDecrypt d r entity container key) =
        Some (CouldNotVerifyContainer e) \<and>
      snd (val (VerifyAuthenticationThenDecrypt d r entity container key)) = [] \<and>
      calls (VerifyAuthenticationThenDecrypt d r entity container key) =
        calls (VerifyAuthentication d r entity container key) \<and>
      (\<forall>c. CallIsEncrypted c
         \<notin> set (calls (VerifyAuthenticationThenDecrypt d r entity container key))) \<and>
      (\<forall>c i k. CallDecrypt c i k
         \<notin> set (calls (VerifyAuthenticationThenDecrypt d r entity container key))))"
proof -
  have v: "\<And>c. CallIsEncrypted c \<notin> set (calls (Verify d entity container))"
    "\<And>c i k. CallDecrypt c i k \<notin> set (calls (Verify d entity container))"
    by (auto simp: Verify_def Let_def split: option.splits)
  have a: "\<And>c. CallIsEncrypted c \<notin> set (calls (VerifyAuthentication d r entity container key))"
    "\<And>c i k. CallDecrypt c i k \<notin> set (calls (VerifyAuthentication d r entity container key))"
    by (auto simp: VerifyAuthentication_def Let_def split: option.splits sum.splits prod.splits)
  show ?thesis
    using v a by (simp add: VerifyThenDecrypt_def VerifyAuthenticationThenDecrypt_def Let_def)
qed

text \<open>
  On the instance: a container that is encrypted and carries a signature that does
  not verify.
\<close>

theorem verify_failure_skips_decrypt_witness:
  "err (Verify sample_deps alice forged) =
     Some (CouldNotVerifyOrgContainerSignature (LibError ''verification failed'')) \<and>
   err (VerifyThenDecrypt sample_deps alice forged) =
     Some (CouldNotVerifyContainer
            (CouldNotVerifyOrgContainerSignature (LibError ''verification failed''))) \<and>
   snd (val (VerifyThenDecrypt sample_deps alice forged)) = [] \<and>
   (\<forall>c i k. CallDecrypt c i k \<notin> set (calls (VerifyThenDecrypt sample_deps alice forged))) \<and>
   err (VerifyAuthentication sample_deps ''r'' alice forged ''ab'') =
     Some (CouldntVerifyContainer (LibError ''MAC mismatch'')) \<and>
   err (VerifyAuthenticationThenDecrypt sample_deps ''r'' alice forged ''ab'') =
     Some (CouldNotVerifyContainer (CouldntVerifyContainer (LibError ''MAC mismatch''))) \<and>
   snd (val (VerifyAuthenticationThenDecrypt sample_deps ''r'' alice forged ''ab'')) = [] \<and>
   (\<forall>c i k. CallDecrypt c i k \<notin>
      set (calls (VerifyAuthenticationThenDecrypt sample_deps ''r'' alice forged ''ab'')))"
proof -
  have v: "err (Verify sample_deps alice forged) =
     Some (CouldNotVerifyOrgContainerSignature (LibError ''verification failed''))"
    by code_simp
  have a: "err (VerifyAuthentication sample_deps ''r'' alice forged ''ab'') =
     Some (CouldntVerifyContainer (LibError ''MAC mismatch''))"
    by code_simp
  show ?thesis
    using v a verify_failure_skips_decrypt [of sample_deps alice forged "''r''" "''ab''"]
    by blast
qed

section \<open>The signature mode on failure paths\<close>

text \<open>
  C9, as the code has it. \<open>Sign\<close> with a supported key type, and \<open>Authenticate\<close> once
  the secret is decoded and the key expanded, leave the mode of the attempted
  signature or code in \<open>signatureMode\<close>, whether or not they then return an error
  (provided \<open>NewSignature\<close> records the mode it is given and \<open>crypto.Sign\<close> does not
  change it). A call that fails earlier (unsupported key type, secret that is not
  hex, failed key expansion) returns before the assignment and leaves the container
  as it was.
\<close>

theorem signature_mode_set_once_attempted:
  assumes nm: "\<forall>m. Mode (NewSignature d m) = m"
      and sm: "\<forall>r msg k s s'. crypto_Sign d r msg k s = Inr s' \<longrightarrow> Mode s' = Mode s"
  shows "(Body_KeyType (Data entity) = KeyTypeRSA d \<longrightarrow>
            Options_SignatureMode (val (Sign d r entity container)) = SignatureModeSha256Rsa d) \<and>
         (Body_KeyType (Data entity) \<noteq> KeyTypeRSA d \<and> Body_KeyType (Data entity) = KeyTypeEC d \<longrightarrow>
            Options_SignatureMode (val (Sign d r entity container)) = SignatureModeSha256Ecdsa d) \<and>
         (Body_KeyType (Data entity) \<noteq> KeyTypeRSA d \<and> Body_KeyType (Data entity) \<noteq> KeyTypeEC d \<longrightarrow>
            val (Sign d r entity container) = container) \<and>
         (\<forall>rawKey x. hex_DecodeString key = Inr rawKey \<and> ExpandKey d r rawKey None = Inr x \<longrightarrow>
            Options_SignatureMode (val (Authenticate d r entity container id' key)) =
              SignatureModeSha256Hmac d) \<and>
         (\<forall>e. hex_DecodeString key = Inl e \<longrightarrow>
            val (Authenticate d r entity container id' key) = container) \<and>
         (\<forall>rawKey e. hex_DecodeString key = Inr rawKey \<and> ExpandKey d r rawKey None = Inl e \<longrightarrow>
            val (Authenticate d r entity container id' key) = container)"
proof -
  have s: "\<And>msg k s s'. crypto_Sign d r msg k s = Inr s' \<Longrightarrow> Mode s' = Mode s"
    using sm by blast
  have 1: "Body_KeyType (Data entity) = KeyTypeRSA d \<longrightarrow>
            Options_SignatureMode (val (Sign d r entity container)) = SignatureModeSha256Rsa d"
    using nm by (auto simp: Sign_def Let_def dest: s split: sum.splits)
  have 2: "Body_KeyType (Data entity) \<noteq> KeyTypeRSA d \<and> Body_KeyType (Data entity) = KeyTypeEC d \<longrightarrow>
            Options_SignatureMode (val (Sign d r entity container)) = SignatureModeSha256Ecdsa d"
    using nm by (auto simp: Sign_def Let_def dest: s split: sum.splits)
  have 3: "Body_KeyType (Data entity) \<noteq> KeyTypeRSA d \<and> Body_KeyType (Data entity) \<noteq> KeyTypeEC d \<longrightarrow>
            val (Sign d r entity container) = container"
    by (simp add: Sign_def)
  have 4: "\<forall>rawKey x. hex_DecodeString key = Inr rawKey \<and> ExpandKey d r rawKey None = Inr x \<longrightarrow>
            Options_SignatureMode (val (Authenticate d r entity container id' key)) =
              SignatureModeSha256Hmac d"
    using nm by (auto simp: Authenticate_def Let_def split: sum.splits)
  have 5: "\<forall>e. hex_DecodeString key = Inl e \<longrightarrow>
            val (Authenticate d r entity container id' key) = container"
    by (simp add: Authenticate_def)
  have 6: "\<forall>rawKey e. hex_DecodeString key = Inr rawKey \<and> ExpandKey d r rawKey None = Inl e \<longrightarrow>
            val (Authenticate d r entity container id' key) = container"
    by (simp add: Authenticate_def)
  show ?thesis using 1 2 3 4 5 6 by blast
qed

text \<open>
  On the instance: alice has no private key yet, so her \<open>Sign\<close> returns an error, and
  the mode is set all the same; her \<open>Authenticate\<close> with the secret \<open>ab\<close> sets the
  HMAC mode.
\<close>

theorem signature_mode_set_once_attempted_witness:
  "err (Sign sample_deps ''r'' alice sample_Container) =
     Some (CouldNotSignContainerJson (LibError ''no private key'')) \<and>
   Options_SignatureMode (val (Sign sample_deps ''r'' alice sample_Container)) = ''ECDSA-SHA256'' \<and>
   Options_SignatureMode (val (Authenticate sample_deps ''r'' alice sample_Container ''keyA'' ''ab''))
     = ''HMAC-SHA256''"
proof -
  have e: "err (Sign sample_deps ''r'' alice sample_Container) =
     Some (CouldNotSignContainerJson (LibError ''no private key''))"
    by code_simp
  have k: "Body_KeyType (Data alice) \<noteq> KeyTypeRSA sample_deps \<and>
           Body_KeyType (Data alice) = KeyTypeEC sample_deps"
    by code_simp
  have x: "hex_DecodeString ''ab'' = Inr [CHR 0xAB] \<and>
           ExpandKey sample_deps ''r'' [CHR 0xAB] None = Inr (frame [CHR 0xAB] @ ''r'', ''r'')"
    by (simp add: hex_ab sample_deps_def sample_ExpandKey_def)
  have m: "SignatureModeSha256Ecdsa sample_deps = ''ECDSA-SHA256'' \<and>
           SignatureModeSha256Hmac sample_deps = ''HMAC-SHA256''"
    by (simp add: sample_deps_def)
  have nm: "\<forall>m. Mode (NewSignature sample_deps m) = m"
    by (simp add: sample_NewSignature_Mode)
  have sm: "\<forall>r msg k s s'. crypto_Sign sample_deps r msg k s = Inr s' \<longrightarrow> Mode s' = Mode s"
    using sample_Sign_Mode by blast
  show ?thesis
    using e k x m
      signature_mode_set_once_attempted
        [OF nm sm, of alice "''r''" sample_Container "''ab''" "''keyA''"]
    by metis
qed

text \<open>
  C9 as stated fails: \<open>Authenticate\<close> with a secret that is not hex returns an error
  and the container's \<open>signatureMode\<close> is still empty, not the HMAC mode.
\<close>

theorem signature_mode_always_set_counterexample:
  "err (Authenticate sample_deps ''r'' alice sample_Container ''keyA'' ''zz'') =
     Some (CouldNotDecodeKey (HexInvalidByte CHR ''z'')) \<and>
   Options_SignatureMode (val (Authenticate sample_deps ''r'' alice sample_Container ''keyA'' ''zz''))
     = [] \<and>
   SignatureModeSha256Hmac sample_deps = ''HMAC-SHA256''"
  by code_simp

section \<open>Verification leaves the signature field empty\<close>

text \<open>
  C10, as the code has it. \<open>Verify\<close>, and \<open>VerifyAuthentication\<close> whenever it gets as
  far as the comparison (it returns no error, or the error of the comparison), leave
  the container's \<open>signature\<close> field empty: the value set aside is not written back.
  With \<open>IsSigned\<close> meaning that the field is not empty, a following \<open>Verify\<close> by any
  entity returns the error of an unsigned container. A \<open>VerifyAuthentication\<close> that
  returns before the comparison (the secret is not hex, or the key expansion fails)
  returns before the field is cleared and leaves the container as it was, signature
  included.
\<close>

theorem verify_leaves_signature_empty:
  assumes "\<forall>c. IsSigned d c = (Options_Signature c \<noteq> [])"
  shows "Options_Signature (val (Verify d entity container)) = [] \<and>
         err (Verify d entity' (val (Verify d entity container))) = Some ContainerIsntSigned \<and>
         (err (VerifyAuthentication d r entity container key) = None \<or>
          (\<exists>e. err (VerifyAuthentication d r entity container key) = Some (CouldntVerifyContainer e))
          \<longrightarrow>
          Options_Signature (val (VerifyAuthentication d r entity container key)) = [] \<and>
          err (Verify d entity' (val (VerifyAuthentication d r entity container key))) =
            Some ContainerIsntSigned) \<and>
         (\<forall>e. hex_DecodeString key = Inl e \<longrightarrow>
            err (VerifyAuthentication d r entity container key) = Some (CouldNotDecodeKey e) \<and>
            val (VerifyAuthentication d r entity container key) = container) \<and>
         (\<forall>rawKey e.
            hex_DecodeString key = Inr rawKey \<and>
            ExpandKey d r rawKey
              (fst (Base64Decode d
                      (map_index (Options_SignatureInputs container) ''signature-salt''))) = Inl e
            \<longrightarrow>
            err (VerifyAuthentication d r entity container key) = Some (CouldNotExpandKey e) \<and>
            val (VerifyAuthentication d r entity container key) = container) \<and>
         (\<forall>rawKey x.
            hex_DecodeString key = Inr rawKey \<and>
            ExpandKey d r rawKey
              (fst (Base64Decode d
                      (map_index (Options_SignatureInputs container) ''signature-salt''))) = Inr x
            \<longrightarrow>
            err (VerifyAuthentication d r entity container key) = None \<or>
            (\<exists>e. err (VerifyAuthentication d r entity container key) =
                    Some (CouldntVerifyContainer e)))"
proof -
  have v: "Options_Signature (val (Verify d entity container)) = []"
    using assms by (simp add: Verify_def Let_def split: option.splits)
  have n: "\<And>c. Options_Signature c = [] \<Longrightarrow> err (Verify d entity' c) = Some ContainerIsntSigned"
    using assms by (simp add: Verify_def)
  have a: "err (VerifyAuthentication d r entity container key) = None \<or>
          (\<exists>e. err (VerifyAuthentication d r entity container key) = Some (CouldntVerifyContainer e))
          \<Longrightarrow> Options_Signature (val (VerifyAuthentication d r entity container key)) = []"
    by (auto simp: VerifyAuthentication_def Let_def split: option.splits sum.splits prod.splits)
  have h: "\<forall>e. hex_DecodeString key = Inl e \<longrightarrow>
            err (VerifyAuthentication d r entity container key) = Some (CouldNotDecodeKey e) \<and>
            val (VerifyAuthentication d r entity container key) = container"
    by (simp add: VerifyAuthentication_def)
  have x: "\<forall>rawKey e.
            hex_DecodeString key = Inr rawKey \<and>
            ExpandKey d r rawKey
              (fst (Base64Decode d
                      (map_index (Options_SignatureInputs container) ''signature-salt''))) = Inl e
            \<longrightarrow>
            err (VerifyAuthentication d r entity container key) = Some (CouldNotExpandKey e) \<and>
            val (VerifyAuthentication d r entity container key) = container"
    by (simp add: VerifyAuthentication_def Let_def split_beta)
  have c: "\<forall>rawKey x.
            hex_DecodeString key = Inr rawKey \<and>
            ExpandKey d r rawKey
              (fst (Base64Decode d
                      (map_index (Options_SignatureInputs container) ''signature-salt''))) = Inr x
            \<longrightarrow>
            err (VerifyAuthentication d r entity container key) = None \<or>
            (\<exists>e. err (VerifyAuthentication d r entity container key) =
                    Some (CouldntVerifyContainer e))"
    by (auto simp: VerifyAuthentication_def Let_def split_beta split: option.splits)
  have f: "err (VerifyAuthentication d r entity container key) = None \<or>
          (\<exists>e. err (VerifyAuthentication d r entity container key) = Some (CouldntVerifyContainer e))
          \<longrightarrow>
          Options_Signature (val (VerifyAuthentication d r entity container key)) = [] \<and>
          err (Verify d entity' (val (VerifyAuthentication d r entity container key))) =
            Some ContainerIsntSigned"
    using n a by blast
  have g: "err (Verify d entity' (val (Verify d entity container))) = Some ContainerIsntSigned"
    using n v by blast
  show ?thesis
    by (intro conjI v g f h x c)
qed

text \<open>
  On the instance: the container alice signed verifies, and a second \<open>Verify\<close> finds
  it unsigned; the same container fails the comparison of \<open>VerifyAuthentication\<close>,
  which leaves it unsigned too; with a secret that is not hex it comes back as it
  was.
\<close>

theorem verify_leaves_signature_empty_witness:
  "Options_Signature signed_hello \<noteq> [] \<and>
   err (Verify sample_deps alice_keys signed_hello) = None \<and>
   Options_Signature (val (Verify sample_deps alice_keys signed_hello)) = [] \<and>
   err (Verify sample_deps bob (val (Verify sample_deps alice_keys signed_hello))) =
     Some ContainerIsntSigned \<and>
   err (VerifyAuthentication sample_deps ''r'' alice_keys signed_hello ''ab'') =
     Some (CouldntVerifyContainer (LibError ''MAC mismatch'')) \<and>
   Options_Signature (val (VerifyAuthentication sample_deps ''r'' alice_keys signed_hello ''ab''))
     = [] \<and>
   err (Verify sample_deps bob
          (val (VerifyAuthentication sample_deps ''r'' alice_keys signed_hello ''ab''))) =
     Some ContainerIsntSigned \<and>
   val (VerifyAuthentication sample_deps ''r'' alice_keys signed_hello ''zz'') = signed_hello"
proof -
  have s: "Options_Signature signed_hello \<noteq> [] \<and>
           err (Verify sample_deps alice_keys signed_hello) = None"
    by code_simp
  have a: "err (VerifyAuthentication sample_deps ''r'' alice_keys signed_hello ''ab'') =
     Some (CouldntVerifyContainer (LibError ''MAC mismatch''))"
    by code_simp
  have i: "\<forall>c. IsSigned sample_deps c = (Options_Signature c \<noteq> [])"
    by (simp add: sample_IsSigned)
  note t = verify_leaves_signature_empty [OF i, of alice_keys signed_hello bob "''r''" "''ab''"]
  note z = verify_leaves_signature_empty [OF i, of alice_keys signed_hello bob "''r''" "''zz''"]
  have 1: "Options_Signature (val (Verify sample_deps alice_keys signed_hello)) = []"
    by (rule t [THEN conjunct1])
  have 2: "err (Verify sample_deps bob (val (Verify sample_deps alice_keys signed_hello))) =
     Some ContainerIsntSigned"
    by (rule t [THEN conjunct2, THEN conjunct1])
  have 3: "Options_Signature
             (val (VerifyAuthentication sample_deps ''r'' alice_keys signed_hello ''ab'')) = [] \<and>
           err (Verify sample_deps bob
                  (val (VerifyAuthentication sample_deps ''r'' alice_keys signed_hello ''ab''))) =
             Some ContainerIsntSigned"
    using t [THEN conjunct2, THEN conjunct2, THEN conjunct1] a by blast
  have 4: "val (VerifyAuthentication sample_deps ''r'' alice_keys signed_hello ''zz'') =
             signed_hello"
    using z [THEN conjunct2, THEN conjunct2, THEN conjunct2, THEN conjunct1, rule_format,
             OF hex_zz]
    by (rule conjunct2)
  show ?thesis
    using s a 1 2 3 4 by (intro conjI) simp_all
qed

text \<open>
  C10 as stated fails for \<open>VerifyAuthentication\<close>: with the secret \<open>zz\<close>, which is not
  hex, and with a key expansion that fails, the call returns before the signature is
  set aside; the container alice signed keeps its signature, and her \<open>Verify\<close> after
  it returns no error instead of the error of an unsigned container.
\<close>

theorem verify_authentication_early_return_counterexample:
  "Options_Signature signed_hello \<noteq> [] \<and>
   err (VerifyAuthentication sample_deps ''r'' alice_keys signed_hello ''zz'') =
     Some (CouldNotDecodeKey (HexInvalidByte CHR ''z'')) \<and>
   Options_Signature (val (VerifyAuthentication sample_deps ''r'' alice_keys signed_hello ''zz'')) =
     Options_Signature signed_hello \<and>
   err (Verify sample_deps alice_keys
          (val (VerifyAuthentication sample_deps ''r'' alice_keys signed_hello ''zz''))) = None \<and>
   err (VerifyAuthentication sample_deps [] alice_keys signed_hello ''ab'') =
     Some (CouldNotExpandKey (LibError ''no random bytes'')) \<and>
   Options_Signature (val (VerifyAuthentication sample_deps [] alice_keys signed_hello ''ab'')) =
     Options_Signature signed_hello \<and>
   err (Verify sample_deps alice_keys
          (val (VerifyAuthentication sample_deps [] alice_keys signed_hello ''ab''))) = None"
  by code_simp

section \<open>Decrypt\<close>

text \<open>
  C5, as the code has it. \<open>Decrypt\<close> returns the error of an unencrypted container
  when \<open>IsEncrypted\<close> is false. Otherwise it hands the entity's id and private
  encryption key, empty or not, to the container's \<open>Decrypt\<close>, and any error of that
  call, the one for a missing private key included, comes back as the one error
  "Could not decrypt"; the plaintext is that call's result. There is no check of the
  private key in \<open>Decrypt\<close> and no error of its own for a missing one.
\<close>

theorem decrypt_errors:
  "(IsEncrypted d container = False \<longrightarrow>
      Decrypt d entity container =
        \<lparr>val = [], err = Some ContainerIsntEncrypted, calls = [CallIsEncrypted container]\<rparr>) \<and>
   (IsEncrypted d container \<longrightarrow>
      calls (Decrypt d entity container) =
        [CallIsEncrypted container,
         CallDecrypt container (Body_Id (Data entity)) (Body_PrivateEncryptionKey (Data entity))] \<and>
      (\<forall>e. Container_Decrypt d container (Body_Id (Data entity))
              (Body_PrivateEncryptionKey (Data entity)) = Inl e \<longrightarrow>
           val (Decrypt d entity container) = [] \<and>
           err (Decrypt d entity container) = Some (CouldNotDecrypt e)) \<and>
      (\<forall>p. Container_Decrypt d container (Body_Id (Data entity))
              (Body_PrivateEncryptionKey (Data entity)) = Inr p \<longrightarrow>
           val (Decrypt d entity container) = p \<and>
           err (Decrypt d entity container) = None))"
  by (auto simp: Decrypt_def Let_def split: sum.splits)

text \<open>
  On the instance: bob decrypts a container that is not encrypted, and one that is.
\<close>

theorem decrypt_errors_witness:
  "Decrypt sample_deps bob_keys sample_Container =
     \<lparr>val = [], err = Some ContainerIsntEncrypted, calls = [CallIsEncrypted sample_Container]\<rparr> \<and>
   val (Decrypt sample_deps bob_keys sealed) = ''hello'' \<and>
   err (Decrypt sample_deps bob_keys sealed) = None \<and>
   calls (Decrypt sample_deps bob_keys sealed) =
     [CallIsEncrypted sealed, CallDecrypt sealed ''b'' ''S11111'']"
proof -
  have u: "IsEncrypted sample_deps sample_Container = False"
    by (simp add: sample_deps_def sample_Container_def)
  have e: "IsEncrypted sample_deps sealed"
    by (simp add: sample_deps_def sample_Container_def sealed_def)
  have k: "Body_Id (Data bob_keys) = ''b'' \<and> Body_PrivateEncryptionKey (Data bob_keys) = ''S11111''"
    by (simp add: bob_keys_Data)
  have p: "Container_Decrypt sample_deps sealed ''b'' ''S11111'' = Inr ''hello''"
    by (simp add: sample_deps_def sample_Decrypt_def sealed_def)
  show ?thesis
    using u e k p decrypt_errors [of sample_deps sample_Container bob_keys]
      decrypt_errors [of sample_deps sealed bob_keys]
    by metis
qed

text \<open>
  C5 as stated fails: for the public view of alice, whose private encryption key is
  empty, \<open>Decrypt\<close> calls the container's \<open>Decrypt\<close> with the empty key and returns
  the "Could not decrypt" error around that call's error.
\<close>

theorem decrypt_public_view_counterexample:
  "Body_PrivateEncryptionKey (Data alice_public) = [] \<and>
   Body_PrivateSigningKey (Data alice_public) = [] \<and>
   IsEncrypted sample_deps sealed \<and>
   Decrypt sample_deps alice_public sealed =
     \<lparr>val = [], err = Some (CouldNotDecrypt (LibError ''no private key'')),
      calls = [CallIsEncrypted sealed, CallDecrypt sealed ''a'' []]\<rparr>"
  by (simp add: Decrypt_def alice_public_Data sealed_def Let_def sample_simps)

section \<open>Encrypt\<close>

lemma Encrypt_range_Some:
  "Encrypt_range m (map Some es) = Some (m ++ map_of (rev (recipient_pairs es)))"
  by (induction es arbitrary: m) (simp_all add: recipient_pairs_def map_add_upd_left)

lemma Encrypt_range_None: "(Encrypt_range m es = None) = (None \<in> set es)"
proof (induction es arbitrary: m)
  case Nil
  show ?case by simp
next
  case (Cons a es)
  then show ?case by (cases a) simp_all
qed

lemma Encrypt_range_nonnil: "Encrypt_range m es = Some x \<Longrightarrow> None \<notin> set es"
  using Encrypt_range_None [of m es] by auto

lemma recipient_pairs_lookup:
  assumes "distinct (map (\<lambda>e. Body_Id (Data e)) es)" and "e \<in> set es"
  shows "map_of (rev (recipient_pairs es)) (Body_Id (Data e)) =
           Some (Body_PublicEncryptionKey (Data e))"
proof -
  have "map fst (recipient_pairs es) = map (\<lambda>e. Body_Id (Data e)) es"
    by (simp add: recipient_pairs_def comp_def)
  then have "distinct (map fst (rev (recipient_pairs es)))"
    using assms(1) by (simp add: rev_map [symmetric])
  moreover have "(Body_Id (Data e), Body_PublicEncryptionKey (Data e))
                   \<in> set (rev (recipient_pairs es))"
    using assms(2) by (auto simp: recipient_pairs_def)
  ultimately show ?thesis by (rule map_of_is_SomeI)
qed

lemma recipient_pairs_dom:
  "dom (map_of (rev (recipient_pairs es))) = (\<lambda>e. Body_Id (Data e)) ` set es"
  by (auto simp: dom_map_of_conv_image_fst recipient_pairs_def image_iff)

text \<open>
  C6, as the code has it. With \<open>nil\<close> the mapping handed to the container's
  \<open>Encrypt\<close> is the calling entity's id and public encryption key alone. With a slice
  of entities, empty or not, it is the mapping built from the slice in order: its
  keys are the ids of the slice, and when the ids are distinct each recipient's id
  maps to its public encryption key. In both cases the container handed over has
  \<open>Source\<close> set to the calling entity's id. The error for invalid entities is
  returned exactly when the argument is neither \<open>nil\<close> nor a slice of entities; a
  \<open>nil\<close> pointer in the slice is a run-time panic.
\<close>

theorem encrypt_recipients:
  "(\<forall>c0. NewContainer d = Inr c0 \<longrightarrow>
      (\<exists>res. Encrypt d r entity content NilArg = Some res \<and>
         calls res =
           [CallNewContainer,
            CallEncrypt (c0\<lparr>Options_Source := Body_Id (Data entity)\<rparr>) content
              (Map.empty(Body_Id (Data entity) \<mapsto> Body_PublicEncryptionKey (Data entity)))])) \<and>
   (\<forall>c0. NewContainer d = Inr c0 \<longrightarrow>
      (\<exists>res. Encrypt d r entity content (EntitySlice (map Some es)) = Some res \<and>
         calls res =
           [CallNewContainer,
            CallEncrypt (c0\<lparr>Options_Source := Body_Id (Data entity)\<rparr>) content
              (map_of (rev (recipient_pairs es)))])) \<and>
   dom (map_of (rev (recipient_pairs es))) = (\<lambda>e. Body_Id (Data e)) ` set es \<and>
   (distinct (map (\<lambda>e. Body_Id (Data e)) es) \<longrightarrow>
      (\<forall>e \<in> set es. map_of (rev (recipient_pairs es)) (Body_Id (Data e)) =
                        Some (Body_PublicEncryptionKey (Data e)))) \<and>
   (\<forall>res t. Encrypt d r entity content entities = Some res \<longrightarrow>
      (err res = Some (InvalidEntitiesGiven t)) = (entities = OtherArg t)) \<and>
   ((Encrypt d r entity content entities = None) =
      (\<exists>ps. entities = EntitySlice ps \<and> None \<in> set ps))"
proof -
  have a: "\<forall>c0. NewContainer d = Inr c0 \<longrightarrow>
      (\<exists>res. Encrypt d r entity content NilArg = Some res \<and>
         calls res =
           [CallNewContainer,
            CallEncrypt (c0\<lparr>Options_Source := Body_Id (Data entity)\<rparr>) content
              (Map.empty(Body_Id (Data entity) \<mapsto> Body_PublicEncryptionKey (Data entity)))])"
    by (auto simp: Encrypt_def Let_def split: sum.splits)
  have b: "\<forall>c0. NewContainer d = Inr c0 \<longrightarrow>
      (\<exists>res. Encrypt d r entity content (EntitySlice (map Some es)) = Some res \<and>
         calls res =
           [CallNewContainer,
            CallEncrypt (c0\<lparr>Options_Source := Body_Id (Data entity)\<rparr>) content
              (map_of (rev (recipient_pairs es)))])"
    by (auto simp: Encrypt_def Let_def Encrypt_range_Some split: sum.splits)
  have c: "\<forall>res t. Encrypt d r entity content entities = Some res \<longrightarrow>
      (err res = Some (InvalidEntitiesGiven t)) = (entities = OtherArg t)"
    by (auto simp: Encrypt_def Let_def split: sum.splits entities_arg.splits option.splits)
  have p: "(Encrypt d r entity content entities = None) =
      (\<exists>ps. entities = EntitySlice ps \<and> None \<in> set ps)"
    by (auto simp: Encrypt_def Let_def Encrypt_range_None dest: Encrypt_range_nonnil
          split: sum.splits entities_arg.splits option.splits)
  show ?thesis
    using a b c p recipient_pairs_dom [of es] recipient_pairs_lookup [of es] by blast
qed

text \<open>
  On the instance: alice encrypts to herself and bob; both ids map to the public
  encryption keys, and an argument of another type is refused.
\<close>

theorem encrypt_recipients_witness:
  "map_of (rev (recipient_pairs [alice_keys, bob_keys])) ''a'' = Some ''P111'' \<and>
   map_of (rev (recipient_pairs [alice_keys, bob_keys])) ''b'' = Some ''P11111'' \<and>
   (\<exists>res. Encrypt sample_deps ''r'' alice_keys ''hello''
             (EntitySlice [Some alice_keys, Some bob_keys]) = Some res \<and>
      calls res =
        [CallNewContainer,
         CallEncrypt (sample_Container\<lparr>Options_Source := ''a''\<rparr>) ''hello''
           (map_of (rev (recipient_pairs [alice_keys, bob_keys])))]) \<and>
   (\<exists>res. Encrypt sample_deps ''r'' alice_keys ''hello'' (OtherArg ''string'') = Some res \<and>
      err res = Some (InvalidEntitiesGiven ''string''))"
proof -
  note t = encrypt_recipients [of sample_deps "''r''" alice_keys "''hello''"
        "[alice_keys, bob_keys]" "OtherArg ''string''"]
  note slice = t [THEN conjunct2, THEN conjunct1, rule_format]
  note lookup = t [THEN conjunct2, THEN conjunct2, THEN conjunct2, THEN conjunct1, rule_format]
  note refused = t [THEN conjunct2, THEN conjunct2, THEN conjunct2, THEN conjunct2,
                    THEN conjunct1, rule_format]
  have n: "NewContainer sample_deps = Inr sample_Container"
    by (simp add: sample_deps_def)
  have s: "distinct (map (\<lambda>e. Body_Id (Data e)) [alice_keys, bob_keys])"
    by code_simp
  have "map_of (rev (recipient_pairs [alice_keys, bob_keys])) (Body_Id (Data alice_keys)) =
          Some (Body_PublicEncryptionKey (Data alice_keys))"
    by (rule lookup [OF s]) simp
  then have 1: "map_of (rev (recipient_pairs [alice_keys, bob_keys])) ''a'' = Some ''P111''"
    by (simp add: alice_keys_Data)
  have "map_of (rev (recipient_pairs [alice_keys, bob_keys])) (Body_Id (Data bob_keys)) =
          Some (Body_PublicEncryptionKey (Data bob_keys))"
    by (rule lookup [OF s]) simp
  then have 2: "map_of (rev (recipient_pairs [alice_keys, bob_keys])) ''b'' = Some ''P11111''"
    by (simp add: bob_keys_Data)
  have 3: "\<exists>res. Encrypt sample_deps ''r'' alice_keys ''hello''
                 (EntitySlice [Some alice_keys, Some bob_keys]) = Some res \<and>
          calls res =
            [CallNewContainer,
             CallEncrypt (sample_Container\<lparr>Options_Source := ''a''\<rparr>) ''hello''
               (map_of (rev (recipient_pairs [alice_keys, bob_keys])))]"
    using slice [OF n] by (simp add: alice_keys_Data)
  obtain res where r: "Encrypt sample_deps ''r'' alice_keys ''hello'' (OtherArg ''string'') = Some res"
    by (simp add: Encrypt_def)
  have "err res = Some (InvalidEntitiesGiven ''string'')"
    using refused [OF r, of "''string''"] by simp
  then have 4: "\<exists>res. Encrypt sample_deps ''r'' alice_keys ''hello'' (OtherArg ''string'') = Some res \<and>
      err res = Some (InvalidEntitiesGiven ''string'')"
    using r by simp
  show ?thesis
    using 1 2 3 4 by simp
qed

text \<open>
  C6 as stated fails: an empty slice of entities is not refused. \<open>Encrypt\<close> goes on
  and calls the container's \<open>Encrypt\<close> with the empty mapping.
\<close>

theorem encrypt_empty_slice_counterexample:
  "Encrypt sample_deps ''r'' alice_keys ''hello'' (EntitySlice []) =
     Some \<lparr>val = Some (sample_Container\<lparr>Options_Source := ''a'', Data_Body := ''olleh'',
                                         Opaque := ''encrypted''\<rparr>),
           err = None,
           calls = [CallNewContainer,
                    CallEncrypt (sample_Container\<lparr>Options_Source := ''a''\<rparr>) ''hello''
                      Map.empty]\<rparr>"
  by (simp add: Encrypt_def alice_keys_Data Let_def sample_simps)

section \<open>The public view\<close>

text \<open>
  C7. \<open>Public\<close> of an entity whose data the document package can write and read back
  returns a pointer to a new entity: its id, name, key type and two public keys are
  those of the original, its two private keys are empty, and every entity that was
  in the store, the original among them, is as it was.
\<close>

theorem public_view:
  assumes p: "entity < length h"
      and tj: "ToJson d (Data (h ! entity)) = Inr j"
      and fj: "FromJson d EntitySchema EntityDefault j = Inr (Data (h ! entity))"
  shows "\<exists>h'. Public d h entity = (h', Inr (length h)) \<and>
           length h' = Suc (length h) \<and>
           (\<forall>q < length h. h' ! q = h ! q) \<and>
           h' ! entity = h ! entity \<and>
           Data (h' ! length h) =
             (Data (h ! entity))\<lparr>Body_PrivateSigningKey := [], Body_PrivateEncryptionKey := []\<rparr> \<and>
           Body_Id (Data (h' ! length h)) = Body_Id (Data (h ! entity)) \<and>
           Body_Name (Data (h' ! length h)) = Body_Name (Data (h ! entity)) \<and>
           Body_KeyType (Data (h' ! length h)) = Body_KeyType (Data (h ! entity)) \<and>
           Body_PublicSigningKey (Data (h' ! length h)) =
             Body_PublicSigningKey (Data (h ! entity)) \<and>
           Body_PublicEncryptionKey (Data (h' ! length h)) =
             Body_PublicEncryptionKey (Data (h ! entity)) \<and>
           Body_PrivateSigningKey (Data (h' ! length h)) = [] \<and>
           Body_PrivateEncryptionKey (Data (h' ! length h)) = []"
proof -
  have d: "Dump d (h ! entity) = j"
    using tj by (simp add: Dump_def)
  have n: "New d h j =
     (h @ [\<lparr>Schema = EntitySchema, Default = EntityDefault, Data = Data (h ! entity)\<rparr>],
      Inr (length h))"
    using fj by (simp add: New_def Entity_New_def Load_def Let_def zero_Entity_def)
  show ?thesis
    using p by (simp add: Public_def d n Let_def nth_append)
qed

text \<open>On the instance: the store holds alice, with her keys, and bob.\<close>

theorem public_view_witness:
  "\<exists>h'. Public sample_deps [alice_keys, bob] 0 = (h', Inr 2) \<and>
     h' ! 0 = alice_keys \<and> h' ! 1 = bob \<and>
     Body_PrivateSigningKey (Data alice_keys) = ''S11'' \<and>
     Body_PrivateSigningKey (Data (h' ! 2)) = [] \<and>
     Body_PrivateEncryptionKey (Data (h' ! 2)) = [] \<and>
     Body_Id (Data (h' ! 2)) = ''a'' \<and>
     Body_PublicSigningKey (Data (h' ! 2)) = ''P11'' \<and>
     Body_PublicEncryptionKey (Data (h' ! 2)) = ''P111''"
proof -
  have p: "(0::nat) < length [alice_keys, bob]"
    by simp
  have tj: "ToJson sample_deps (Data ([alice_keys, bob] ! 0)) =
     Inr (''pki.io'' @ CHR 0x0A # ''1'' @ CHR 0x0A # ''entity-document'' @ CHR 0x0A # [] @
          CHR 0x0A # ''a'' @ CHR 0x0A # ''alice'' @ CHR 0x0A # ''ec'' @ CHR 0x0A # ''P11'' @
          CHR 0x0A # ''S11'' @ CHR 0x0A # ''P111'' @ CHR 0x0A # ''S111'')"
    by (simp add: alice_keys_Data sample_deps_def sample_ToJson_def unary_def)
  have fj: "FromJson sample_deps EntitySchema EntityDefault
      (''pki.io'' @ CHR 0x0A # ''1'' @ CHR 0x0A # ''entity-document'' @ CHR 0x0A # [] @
          CHR 0x0A # ''a'' @ CHR 0x0A # ''alice'' @ CHR 0x0A # ''ec'' @ CHR 0x0A # ''P11'' @
          CHR 0x0A # ''S11'' @ CHR 0x0A # ''P111'' @ CHR 0x0A # ''S111'') =
      Inr (Data ([alice_keys, bob] ! 0))"
    by (simp add: alice_keys_Data sample_deps_def sample_FromJson_def)
  have k: "Data ([alice_keys, bob] ! 0) = Data alice_keys \<and> [alice_keys, bob] ! 0 = alice_keys \<and>
           [alice_keys, bob] ! 1 = bob \<and> length [alice_keys, bob] = 2 \<and>
           (1::nat) < length [alice_keys, bob]"
    by simp
  have v: "Body_PrivateSigningKey (Data alice_keys) = ''S11'' \<and> Body_Id (Data alice_keys) = ''a'' \<and>
           Body_PublicSigningKey (Data alice_keys) = ''P11'' \<and>
           Body_PublicEncryptionKey (Data alice_keys) = ''P111''"
    by (simp add: alice_keys_Data)
  show ?thesis
    using k v public_view [OF p tj fj] by metis
qed

section \<open>Decoding failures in VerifyAuthentication\<close>

text \<open>
  C8 holds for the secret and fails for the salt. When the secret is not hex,
  \<open>VerifyAuthentication\<close> returns the decoding error at once, with no call made. When
  the recorded salt is not base64, the error of \<open>Base64Decode\<close> is dropped: the key is
  expanded from whatever salt \<open>Base64Decode\<close> returned beside its error, and, if the
  expansion succeeds, the comparison is made and decides the result.
\<close>

theorem salt_decoding_error_dropped:
  "(\<forall>e. hex_DecodeString key = Inl e \<longrightarrow>
      VerifyAuthentication d r entity container key =
        \<lparr>val = container, err = Some (CouldNotDecodeKey e), calls = []\<rparr>) \<and>
   (\<forall>rawKey salt e.
      hex_DecodeString key = Inr rawKey \<and>
      Base64Decode d (map_index (Options_SignatureInputs container) ''signature-salt'') =
        (salt, Some e) \<longrightarrow>
      CallExpandKey rawKey salt \<in> set (calls (VerifyAuthentication d r entity container key)) \<and>
      (\<forall>newKey s. ExpandKey d r rawKey salt = Inr (newKey, s) \<longrightarrow>
         (\<exists>m mac. CallHMACVerify m newKey mac
            \<in> set (calls (VerifyAuthentication d r entity container key))) \<and>
         (err (VerifyAuthentication d r entity container key) = None \<or>
          (\<exists>e'. err (VerifyAuthentication d r entity container key) =
                  Some (CouldntVerifyContainer e')))))"
  by (auto simp: VerifyAuthentication_def Let_def split: sum.splits option.splits)

text \<open>
  On the instance: the salt \<open>!!\<close> is not base64, the secret \<open>ab\<close> is hex; a key is
  derived, from a fresh salt, and the comparison is what fails.
\<close>

theorem salt_decoding_error_dropped_witness:
  "Base64Decode sample_deps (map_index (Options_SignatureInputs bad_salt) ''signature-salt'') =
     (None, Some (LibError ''illegal base64 data'')) \<and>
   CallExpandKey [CHR 0xAB] None
     \<in> set (calls (VerifyAuthentication sample_deps ''r'' alice bad_salt ''ab'')) \<and>
   (\<exists>m mac. CallHMACVerify m (frame [CHR 0xAB] @ ''r'') mac
     \<in> set (calls (VerifyAuthentication sample_deps ''r'' alice bad_salt ''ab''))) \<and>
   err (VerifyAuthentication sample_deps ''r'' alice bad_salt ''ab'') =
     Some (CouldntVerifyContainer (LibError ''MAC mismatch''))"
proof -
  have b: "Base64Decode sample_deps
             (map_index (Options_SignatureInputs bad_salt) ''signature-salt'') =
           (None, Some (LibError ''illegal base64 data''))"
    by (simp add: bad_salt_def sample_deps_def sample_Container_def map_index_def)
  have x: "ExpandKey sample_deps ''r'' [CHR 0xAB] None = Inr (frame [CHR 0xAB] @ ''r'', ''r'')"
    by (simp add: sample_deps_def sample_ExpandKey_def)
  have e: "err (VerifyAuthentication sample_deps ''r'' alice bad_salt ''ab'') =
     Some (CouldntVerifyContainer (LibError ''MAC mismatch''))"
    by code_simp
  show ?thesis
    using b x e hex_ab
      salt_decoding_error_dropped [of "''ab''" sample_deps "''r''" alice bad_salt]
    by blast
qed

section \<open>Signing, then verifying\<close>

lemma flip_char_neq: "flip_char k c \<noteq> c"
  by (cases c) simp

lemma flip_body_bit_neq: "i < 8 * length s \<Longrightarrow> flip_body_bit i s \<noteq> s"
proof -
  assume "i < 8 * length s"
  then have l: "i div 8 < length s" by simp
  have "flip_body_bit i s ! (i div 8) = flip_char (i mod 8) (s ! (i div 8))"
    using l by (simp add: flip_body_bit_def)
  then show ?thesis
    using flip_char_neq [of "i mod 8" "s ! (i div 8)"] by metis
qed

lemma replicate_sep:
  "replicate n a @ z # xs = replicate m a @ z # ys \<Longrightarrow> a \<noteq> z \<Longrightarrow> n = m \<and> xs = ys"
proof (induction n arbitrary: m)
  case 0
  then show ?case by (cases m) auto
next
  case (Suc n)
  then show ?case by (cases m) auto
qed

lemma frame_inj: "frame a @ x = frame b @ y \<Longrightarrow> a = b \<and> x = y"
proof -
  assume e: "frame a @ x = frame b @ y"
  then have "replicate (length a) CHR ''1'' @ CHR ''0'' # (a @ x) =
             replicate (length b) CHR ''1'' @ CHR ''0'' # (b @ y)"
    by (simp add: frame_def)
  then have "length a = length b \<and> a @ x = b @ y"
    by (rule replicate_sep) simp
  then show ?thesis by (metis append_eq_append_conv)
qed

lemma generated_RSA:
  "GenerateRSAKey d r = Inr k0 \<Longrightarrow> rsa_Validate d (rsa_Precompute d k0) = None \<Longrightarrow>
   generated d (RSAPrivate (rsa_Precompute d k0)) (SignatureModeSha256Rsa d)"
  by (auto simp: generated_def)

lemma generated_EC:
  "GenerateECKey d r = Inr k1 \<Longrightarrow> generated d (ECPrivate k1) (SignatureModeSha256Ecdsa d)"
  by (auto simp: generated_def)

lemma GenerateKeys_keys:
  assumes "GenerateKeys d r1 r2 entity0 = (entity, None)"
  shows "\<exists>k m. generated d k m \<and>
           PemEncodePrivate d k = Inr (Body_PrivateSigningKey (Data entity)) \<and>
           PemEncodePublic d (public_of k) = Inr (Body_PublicSigningKey (Data entity)) \<and>
           (if Body_KeyType (Data entity) = KeyTypeRSA d then Some (SignatureModeSha256Rsa d)
            else if Body_KeyType (Data entity) = KeyTypeEC d then Some (SignatureModeSha256Ecdsa d)
            else None) = Some m"
proof (cases "Body_KeyType (Data entity0) = KeyTypeRSA d")
  case True
  with assms obtain k0 where
    "GenerateRSAKey d r1 = Inr k0" "rsa_Validate d (rsa_Precompute d k0) = None"
    "PemEncodePrivate d (RSAPrivate (rsa_Precompute d k0)) =
       Inr (Body_PrivateSigningKey (Data entity))"
    "PemEncodePublic d (RSAPublic (rsa_PublicKey (rsa_Precompute d k0))) =
       Inr (Body_PublicSigningKey (Data entity))"
    "Body_KeyType (Data entity) = KeyTypeRSA d"
    by (auto simp: GenerateKeys_def generateRSAKeys_def Let_def
             split: sum.splits option.splits prod.splits)
  then show ?thesis
    using generated_RSA [of d r1 k0] by (intro exI [of _ "RSAPrivate (rsa_Precompute d k0)"]
      exI [of _ "SignatureModeSha256Rsa d"]) simp
next
  case False
  with assms obtain k1 where
    "GenerateECKey d r1 = Inr k1"
    "PemEncodePrivate d (ECPrivate k1) = Inr (Body_PrivateSigningKey (Data entity))"
    "PemEncodePublic d (ECPublic (ecdsa_PublicKey k1)) = Inr (Body_PublicSigningKey (Data entity))"
    "Body_KeyType (Data entity) \<noteq> KeyTypeRSA d" "Body_KeyType (Data entity) = KeyTypeEC d"
    by (auto simp: GenerateKeys_def generateECKeys_def Let_def
             split: sum.splits option.splits prod.splits if_splits)
  then show ?thesis
    using generated_EC [of d r1 k1] by (intro exI [of _ "ECPrivate k1"]
      exI [of _ "SignatureModeSha256Ecdsa d"]) simp
qed


lemma Sign_ok:
  assumes "err (Sign d r entity c) = None"
      and "(if Body_KeyType (Data entity) = KeyTypeRSA d then Some (SignatureModeSha256Rsa d)
            else if Body_KeyType (Data entity) = KeyTypeEC d then Some (SignatureModeSha256Ecdsa d)
            else None) = Some m"
  shows "\<exists>sg. crypto_Sign d r
                 (Container_Dump d (c\<lparr>Options_SignatureMode := Mode (NewSignature d m),
                                       Options_Signature := []\<rparr>))
                 (Body_PrivateSigningKey (Data entity)) (NewSignature d m) = Inr sg \<and>
              val (Sign d r entity c) =
                c\<lparr>Options_SignatureMode := Mode sg, Options_Signature := Signature sg\<rparr>"
  using assms by (auto simp: Sign_def Let_def split: sum.splits if_splits option.splits)

lemma SignString_ok:
  assumes "val (SignString d r entity content) = Some container"
  shows "\<exists>c0. err (Sign d r entity
                      (c0\<lparr>Options_Source := Body_Id (Data entity), Data_Body := content\<rparr>)) = None \<and>
              container = val (Sign d r entity
                      (c0\<lparr>Options_Source := Body_Id (Data entity), Data_Body := content\<rparr>))"
  using assms by (auto simp: SignString_def Let_def split: sum.splits option.splits)

lemma signing_contract_IsSigned:
  "signing_contract d \<Longrightarrow> IsSigned d c = (Options_Signature c \<noteq> [])"
  by (simp add: signing_contract_def)

lemma signing_contract_Dump:
  assumes "signing_contract d"
      and "Container_Dump d (c\<lparr>Data_Body := b\<rparr>) = Container_Dump d (c\<lparr>Data_Body := b'\<rparr>)"
  shows "b = b'"
proof -
  have "\<forall>c b b'. Container_Dump d (c\<lparr>Data_Body := b\<rparr>) = Container_Dump d (c\<lparr>Data_Body := b'\<rparr>)
        \<longrightarrow> b = b'"
    using assms(1) by (simp add: signing_contract_def)
  then show ?thesis using assms(2) by blast
qed

lemma signing_contract_Sign:
  assumes "signing_contract d"
      and "generated d k m" and "PemEncodePrivate d k = Inr priv"
      and "PemEncodePublic d (public_of k) = Inr pub"
      and "crypto_Sign d r msg priv (NewSignature d m) = Inr sg"
  shows "Signature sg \<noteq> [] \<and> Mode sg = Mode (NewSignature d m) \<and>
          (\<forall>msg'. (crypto_Verify d \<lparr>Message = msg', Mode = [], Signature = Signature sg\<rparr> pub = None)
                    = (msg' = msg))"
proof -
  have a: "\<forall>k m priv pub r msg sg.
        generated d k m \<and> PemEncodePrivate d k = Inr priv \<and>
        PemEncodePublic d (public_of k) = Inr pub \<and>
        crypto_Sign d r msg priv (NewSignature d m) = Inr sg \<longrightarrow>
          Signature sg \<noteq> [] \<and> Mode sg = Mode (NewSignature d m) \<and>
          (\<forall>msg'. (crypto_Verify d \<lparr>Message = msg', Mode = [], Signature = Signature sg\<rparr> pub = None)
                    = (msg' = msg))"
    using assms(1) by (simp add: signing_contract_def)
  have p: "generated d k m \<and> PemEncodePrivate d k = Inr priv \<and>
        PemEncodePublic d (public_of k) = Inr pub \<and>
        crypto_Sign d r msg priv (NewSignature d m) = Inr sg"
    using assms by simp
  show ?thesis
    by (rule a [rule_format, OF p])
qed

lemma Verify_signed:
  assumes c: "signing_contract d"
      and g: "generated d k m"
      and priv: "PemEncodePrivate d k = Inr (Body_PrivateSigningKey (Data entity))"
      and pub: "PemEncodePublic d (public_of k) = Inr (Body_PublicSigningKey (Data entity))"
      and sg: "crypto_Sign d r
                 (Container_Dump d (c0\<lparr>Options_SignatureMode := Mode (NewSignature d m),
                                        Options_Signature := []\<rparr>))
                 (Body_PrivateSigningKey (Data entity)) (NewSignature d m) = Inr sg"
  shows "(b = Data_Body c0 \<longrightarrow>
            err (Verify d entity
                  (c0\<lparr>Options_SignatureMode := Mode sg, Options_Signature := Signature sg,
                      Data_Body := b\<rparr>)) = None) \<and>
         (b \<noteq> Data_Body c0 \<longrightarrow>
            (\<exists>e. err (Verify d entity
                  (c0\<lparr>Options_SignatureMode := Mode sg, Options_Signature := Signature sg,
                      Data_Body := b\<rparr>)) = Some (CouldNotVerifyOrgContainerSignature e)))"
proof -
  define c2 where "c2 = c0\<lparr>Options_SignatureMode := Mode (NewSignature d m), Options_Signature := []\<rparr>"
  define t where "t = c0\<lparr>Options_SignatureMode := Mode sg, Options_Signature := Signature sg,
               Data_Body := b\<rparr>"
  define pk where "pk = Body_PublicSigningKey (Data entity)"
  note k = signing_contract_Sign [OF c g priv pub sg]
  have k1: "Signature sg \<noteq> []" and k2: "Mode sg = Mode (NewSignature d m)"
    using k by simp_all
  have k3: "(crypto_Verify d \<lparr>Message = msg', Mode = [], Signature = Signature sg\<rparr> pk = None)
                    = (msg' = Container_Dump d c2)" for msg'
    using k by (simp add: c2_def pk_def)
  have signed: "IsSigned d t"
    using k1 by (simp add: signing_contract_IsSigned [OF c] t_def)
  have cleared: "t\<lparr>Options_Signature := []\<rparr> = c2\<lparr>Data_Body := b\<rparr>"
    using k2 by (simp add: t_def c2_def)
  have sig: "Options_Signature t = Signature sg"
    by (simp add: t_def)
  have same: "c2\<lparr>Data_Body := Data_Body c0\<rparr> = c2"
    by (simp add: c2_def)
  have v: "err (Verify d entity t) =
             (case crypto_Verify d
                     \<lparr>Message = Container_Dump d (c2\<lparr>Data_Body := b\<rparr>), Mode = [],
                      Signature = Signature sg\<rparr> pk of
                Some e \<Rightarrow> Some (CouldNotVerifyOrgContainerSignature e)
              | None \<Rightarrow> None)"
    by (simp add: Verify_def signed cleared sig Let_def new_Signed_def pk_def split: option.splits)
  have "(Container_Dump d (c2\<lparr>Data_Body := b\<rparr>) = Container_Dump d c2) = (b = Data_Body c0)"
    using signing_contract_Dump [where c = c2 and b = b and b' = "Data_Body c0", OF c] same by auto
  then have iff: "(crypto_Verify d
                     \<lparr>Message = Container_Dump d (c2\<lparr>Data_Body := b\<rparr>), Mode = [],
                      Signature = Signature sg\<rparr> pk = None) = (b = Data_Body c0)"
    using k3 by simp
  have "(b = Data_Body c0 \<longrightarrow> err (Verify d entity t) = None) \<and>
        (b \<noteq> Data_Body c0 \<longrightarrow>
           (\<exists>e. err (Verify d entity t) = Some (CouldNotVerifyOrgContainerSignature e)))"
    using v iff by (cases "crypto_Verify d
                     \<lparr>Message = Container_Dump d (c2\<lparr>Data_Body := b\<rparr>), Mode = [],
                      Signature = Signature sg\<rparr> pk") simp_all
  then show ?thesis
    by (simp only: t_def)
qed

text \<open>
  C1. Let the two packages keep the signing contract. An entity whose keys
  \<open>GenerateKeys\<close> has generated (so its key type is RSA or EC) and that gets a
  container from \<open>SignString\<close> on some content gets one whose body is that content
  and on which its \<open>Verify\<close> returns no error; and with any single bit of the body
  flipped, \<open>Verify\<close> returns the error "Could not verify org container signature".
\<close>

theorem sign_then_verify:
  assumes c: "signing_contract d"
      and gen: "GenerateKeys d r1 r2 entity0 = (entity, None)"
      and sign: "val (SignString d r entity content) = Some container"
  shows "Data_Body container = content \<and>
         err (Verify d entity container) = None \<and>
         (\<forall>i < 8 * length (Data_Body container).
            \<exists>e. err (Verify d entity
                       (container\<lparr>Data_Body := flip_body_bit i (Data_Body container)\<rparr>)) =
                   Some (CouldNotVerifyOrgContainerSignature e))"
proof -
  obtain k m where g: "generated d k m"
    and priv: "PemEncodePrivate d k = Inr (Body_PrivateSigningKey (Data entity))"
    and pub: "PemEncodePublic d (public_of k) = Inr (Body_PublicSigningKey (Data entity))"
    and m: "(if Body_KeyType (Data entity) = KeyTypeRSA d then Some (SignatureModeSha256Rsa d)
            else if Body_KeyType (Data entity) = KeyTypeEC d then Some (SignatureModeSha256Ecdsa d)
            else None) = Some m"
    using GenerateKeys_keys [OF gen] by blast
  obtain c0 where ok: "err (Sign d r entity
                      (c0\<lparr>Options_Source := Body_Id (Data entity), Data_Body := content\<rparr>)) = None"
    and res: "container = val (Sign d r entity
                      (c0\<lparr>Options_Source := Body_Id (Data entity), Data_Body := content\<rparr>))"
    using SignString_ok [OF sign] by blast
  let ?c = "c0\<lparr>Options_Source := Body_Id (Data entity), Data_Body := content\<rparr>"
  obtain sg where s: "crypto_Sign d r
                 (Container_Dump d (?c\<lparr>Options_SignatureMode := Mode (NewSignature d m),
                                       Options_Signature := []\<rparr>))
                 (Body_PrivateSigningKey (Data entity)) (NewSignature d m) = Inr sg"
    and v: "val (Sign d r entity ?c) =
                ?c\<lparr>Options_SignatureMode := Mode sg, Options_Signature := Signature sg\<rparr>"
    using Sign_ok [OF ok m] by blast
  have form: "container = ?c\<lparr>Options_SignatureMode := Mode sg, Options_Signature := Signature sg\<rparr>"
    using res v by simp
  have body: "Data_Body container = content"
    using form by simp
  have tam: "\<And>b. container\<lparr>Data_Body := b\<rparr> =
                  ?c\<lparr>Options_SignatureMode := Mode sg, Options_Signature := Signature sg,
                      Data_Body := b\<rparr>"
    using form by simp
  note V = Verify_signed [OF c g priv pub s]
  have good: "err (Verify d entity container) = None"
  proof -
    have "err (Verify d entity
                 (?c\<lparr>Options_SignatureMode := Mode sg, Options_Signature := Signature sg,
                     Data_Body := content\<rparr>)) = None"
      using V [of content] by simp
    moreover have "?c\<lparr>Options_SignatureMode := Mode sg, Options_Signature := Signature sg,
                      Data_Body := content\<rparr> = container"
      using form by simp
    ultimately show ?thesis by simp
  qed
  have bad: "\<exists>e. err (Verify d entity (container\<lparr>Data_Body := b\<rparr>)) =
                      Some (CouldNotVerifyOrgContainerSignature e)" if "b \<noteq> content" for b
  proof -
    have "\<exists>e. err (Verify d entity
                 (?c\<lparr>Options_SignatureMode := Mode sg, Options_Signature := Signature sg,
                     Data_Body := b\<rparr>)) = Some (CouldNotVerifyOrgContainerSignature e)"
      using V [of b] that by simp
    then show ?thesis
      by (simp only: tam [of b])
  qed
  have flips: "\<forall>i < 8 * length (Data_Body container).
            \<exists>e. err (Verify d entity
                       (container\<lparr>Data_Body := flip_body_bit i (Data_Body container)\<rparr>)) =
                   Some (CouldNotVerifyOrgContainerSignature e)"
  proof (intro allI impI)
    fix i
    assume "i < 8 * length (Data_Body container)"
    then have "flip_body_bit i (Data_Body container) \<noteq> content"
      using flip_body_bit_neq [of i "Data_Body container"] body by simp
    then show "\<exists>e. err (Verify d entity
                       (container\<lparr>Data_Body := flip_body_bit i (Data_Body container)\<rparr>)) =
                   Some (CouldNotVerifyOrgContainerSignature e)"
      by (rule bad)
  qed
  show ?thesis
    using body good flips by blast
qed

lemma sample_key_pair:
  assumes "generated sample_deps k m"
      and "PemEncodePrivate sample_deps k = Inr priv"
      and "PemEncodePublic sample_deps (public_of k) = Inr pub"
  shows "priv \<noteq> [] \<and> pub \<noteq> [] \<and> tl priv = tl pub"
proof (cases k)
  case (RSAPrivate x)
  with assms show ?thesis
    by (auto simp: generated_def sample_deps_def sample_GenerateRSAKey_def sample_Validate_def
             split: if_splits)
next
  case (ECPrivate x)
  with assms show ?thesis
    by (auto simp: generated_def sample_deps_def sample_GenerateECKey_def split: if_splits)
qed

lemma sample_Dump_body:
  "sample_Dump (c\<lparr>Data_Body := b\<rparr>) = sample_Dump (c\<lparr>Data_Body := b'\<rparr>) \<Longrightarrow> b = b'"
  by (simp add: sample_Dump_def)

lemma sample_Sign_Verify:
  assumes "priv \<noteq> []" and "pub \<noteq> []" and "tl priv = tl pub"
      and "sample_Sign r msg priv (sample_NewSignature m) = Inr sg"
  shows "Signature sg \<noteq> [] \<and> Mode sg = Mode (sample_NewSignature m) \<and>
          (\<forall>msg'. (sample_Verify \<lparr>Message = msg', Mode = [], Signature = Signature sg\<rparr> pub = None)
                    = (msg' = msg))"
  using assms by (auto simp: sample_Sign_def sample_Verify_def sample_NewSignature_def)

lemma sample_signing_contract: "signing_contract sample_deps"
proof -
  have 1: "\<forall>c. IsSigned sample_deps c = (Options_Signature c \<noteq> [])"
    by (simp add: sample_deps_def)
  have 2: "\<forall>c b b'. Container_Dump sample_deps (c\<lparr>Data_Body := b\<rparr>) =
                     Container_Dump sample_deps (c\<lparr>Data_Body := b'\<rparr>) \<longrightarrow> b = b'"
    using sample_Dump_body by (simp add: sample_deps_def)
  have 3: "\<forall>k m priv pub r msg sg.
        generated sample_deps k m \<and> PemEncodePrivate sample_deps k = Inr priv \<and>
        PemEncodePublic sample_deps (public_of k) = Inr pub \<and>
        crypto_Sign sample_deps r msg priv (NewSignature sample_deps m) = Inr sg \<longrightarrow>
          Signature sg \<noteq> [] \<and> Mode sg = Mode (NewSignature sample_deps m) \<and>
          (\<forall>msg'. (crypto_Verify sample_deps
                      \<lparr>Message = msg', Mode = [], Signature = Signature sg\<rparr> pub = None)
                    = (msg' = msg))"
  proof (intro allI impI)
    fix k m priv pub r msg sg
    assume a: "generated sample_deps k m \<and> PemEncodePrivate sample_deps k = Inr priv \<and>
        PemEncodePublic sample_deps (public_of k) = Inr pub \<and>
        crypto_Sign sample_deps r msg priv (NewSignature sample_deps m) = Inr sg"
    then have p: "priv \<noteq> [] \<and> pub \<noteq> [] \<and> tl priv = tl pub"
      using sample_key_pair [of k m priv pub] by simp
    have s: "sample_Sign r msg priv (sample_NewSignature m) = Inr sg"
      using a by (simp add: sample_deps_def)
    have "Signature sg \<noteq> [] \<and> Mode sg = Mode (sample_NewSignature m) \<and>
          (\<forall>msg'. (sample_Verify \<lparr>Message = msg', Mode = [], Signature = Signature sg\<rparr> pub = None)
                    = (msg' = msg))"
      using sample_Sign_Verify [of priv pub r msg m sg] p s by simp
    then show "Signature sg \<noteq> [] \<and> Mode sg = Mode (NewSignature sample_deps m) \<and>
          (\<forall>msg'. (crypto_Verify sample_deps
                      \<lparr>Message = msg', Mode = [], Signature = Signature sg\<rparr> pub = None)
                    = (msg' = msg))"
      by (simp add: sample_deps_def)
  qed
  show ?thesis
    unfolding signing_contract_def using 1 2 3 by (intro conjI)
qed

lemma alice_generated: "GenerateKeys sample_deps ''xy'' ''xyz'' alice = (alice_keys, None)"
proof -
  have "snd (GenerateKeys sample_deps ''xy'' ''xyz'' alice) = None"
    by code_simp
  then show ?thesis
    by (simp add: alice_keys_def prod_eq_iff)
qed

lemma bob_generated: "GenerateKeys sample_deps ''pqrs'' ''pqrst'' bob = (bob_keys, None)"
proof -
  have "snd (GenerateKeys sample_deps ''pqrs'' ''pqrst'' bob) = None"
    by code_simp
  then show ?thesis
    by (simp add: bob_keys_def prod_eq_iff)
qed

lemma alice_signed: "val (SignString sample_deps ''r'' alice_keys ''hello'') = Some signed_hello"
proof -
  have "err (Sign sample_deps ''r'' alice_keys
               (sample_Container\<lparr>Options_Source := ''a'', Data_Body := ''hello''\<rparr>)) = None"
    by code_simp
  then show ?thesis
    by (simp add: SignString_def signed_hello_def alice_keys_Data Let_def sample_deps_def)
qed

lemma bob_signed: "val (SignString sample_deps ''r'' bob_keys ''hello'') = Some signed_by_bob"
proof -
  have "err (Sign sample_deps ''r'' bob_keys
               (sample_Container\<lparr>Options_Source := ''b'', Data_Body := ''hello''\<rparr>)) = None"
    by code_simp
  then show ?thesis
    by (simp add: SignString_def signed_by_bob_def bob_keys_Data Let_def sample_deps_def)
qed

lemma flip_hello: "flip_body_bit 32 ''hello'' = ''helln''"
  by code_simp

text \<open>
  On the instance, which keeps the contract: alice (EC) and bob (RSA) generate keys
  and sign \<open>hello\<close>; flipping bit 32, the lowest bit of the last byte, gives \<open>helln\<close>.
\<close>

theorem sign_then_verify_witness:
  "Body_KeyType (Data alice_keys) = ''ec'' \<and>
   err (Verify sample_deps alice_keys signed_hello) = None \<and>
   (\<exists>e. err (Verify sample_deps alice_keys (signed_hello\<lparr>Data_Body := ''helln''\<rparr>)) =
          Some (CouldNotVerifyOrgContainerSignature e)) \<and>
   Body_KeyType (Data bob_keys) = ''rsa'' \<and>
   err (Verify sample_deps bob_keys signed_by_bob) = None \<and>
   (\<exists>e. err (Verify sample_deps bob_keys (signed_by_bob\<lparr>Data_Body := ''helln''\<rparr>)) =
          Some (CouldNotVerifyOrgContainerSignature e))"
proof -
  note a = sign_then_verify [OF sample_signing_contract alice_generated alice_signed]
  note b = sign_then_verify [OF sample_signing_contract bob_generated bob_signed]
  have la: "(32::nat) < 8 * length (Data_Body signed_hello)"
    using a by simp
  have lb: "(32::nat) < 8 * length (Data_Body signed_by_bob)"
    using b by simp
  have fa: "\<exists>e. err (Verify sample_deps alice_keys
                      (signed_hello\<lparr>Data_Body := flip_body_bit 32 (Data_Body signed_hello)\<rparr>)) =
          Some (CouldNotVerifyOrgContainerSignature e)"
    using a la by blast
  have fb: "\<exists>e. err (Verify sample_deps bob_keys
                      (signed_by_bob\<lparr>Data_Body := flip_body_bit 32 (Data_Body signed_by_bob)\<rparr>)) =
          Some (CouldNotVerifyOrgContainerSignature e)"
    using b lb by blast
  have ka: "Body_KeyType (Data alice_keys) = ''ec''"
    by (simp add: alice_keys_Data)
  have kb: "Body_KeyType (Data bob_keys) = ''rsa''"
    by (simp add: bob_keys_Data)
  show ?thesis
    using a b fa fb ka kb flip_hello by simp
qed

section \<open>Authenticating, then verifying\<close>

lemma auth_b64:
  "authentication_contract d \<Longrightarrow> Base64Decode d (Base64Encode d s) = (Some s, None)"
  by (simp add: authentication_contract_def)

lemma auth_expand:
  assumes "authentication_contract d" and "ExpandKey d r raw None = Inr (k, s)"
  shows "\<exists>k' s'. ExpandKey d r' raw' (Some s) = Inr (k', s') \<and> (k' = k) = (raw' = raw)"
proof -
  have a: "\<forall>r raw k s r' raw'.
        ExpandKey d r raw None = Inr (k, s) \<longrightarrow>
          (\<exists>k' s'. ExpandKey d r' raw' (Some s) = Inr (k', s') \<and> (k' = k) = (raw' = raw))"
    using assms(1) by (simp add: authentication_contract_def)
  show ?thesis
    by (rule a [rule_format, OF assms(2)])
qed

lemma auth_salt:
  assumes "authentication_contract d" and "ExpandKey d r raw None = Inr (k, s)"
      and "ExpandKey d r' raw (Some s2) = Inr (k', s')" and "s2 \<noteq> s"
  shows "k' \<noteq> k"
proof -
  have a: "\<forall>r raw k s r' s2 k' s'.
        ExpandKey d r raw None = Inr (k, s) \<and> ExpandKey d r' raw (Some s2) = Inr (k', s') \<and>
        s2 \<noteq> s \<longrightarrow> k' \<noteq> k"
    using assms(1) by (simp add: authentication_contract_def)
  have p: "ExpandKey d r raw None = Inr (k, s) \<and> ExpandKey d r' raw (Some s2) = Inr (k', s') \<and>
        s2 \<noteq> s"
    using assms by simp
  show ?thesis
    by (rule a [rule_format, OF p])
qed

lemma auth_mac:
  assumes "authentication_contract d"
      and "crypto_HMAC d msg k (NewSignature d (SignatureModeSha256Hmac d)) = Inr sg"
  shows "(HMACVerify d msg' k'
            ((NewSignature d (SignatureModeSha256Hmac d))\<lparr>Signature := Signature sg\<rparr>) = None)
         = (msg' = msg \<and> k' = k)"
proof -
  have a: "\<forall>msg k sg.
        crypto_HMAC d msg k (NewSignature d (SignatureModeSha256Hmac d)) = Inr sg \<longrightarrow>
          (\<forall>msg' k'.
             (HMACVerify d msg' k'
                ((NewSignature d (SignatureModeSha256Hmac d))\<lparr>Signature := Signature sg\<rparr>) = None)
             = (msg' = msg \<and> k' = k))"
    using assms(1) by (simp add: authentication_contract_def)
  show ?thesis
    by (rule a [rule_format, OF assms(2)])
qed

lemma Authenticate_ok:
  assumes "err (Authenticate d r entity c id' s) = None"
  shows "\<exists>raw k salt sg.
           hex_DecodeString s = Inr raw \<and> ExpandKey d r raw None = Inr (k, salt) \<and>
           crypto_HMAC d
             (Container_Dump d
                (c\<lparr>Options_SignatureMode := Mode (NewSignature d (SignatureModeSha256Hmac d)),
                   Options_SignatureInputs :=
                     [''key-id'' \<mapsto> id', ''signature-salt'' \<mapsto> Base64Encode d salt],
                   Options_Signature := []\<rparr>))
             k (NewSignature d (SignatureModeSha256Hmac d)) = Inr sg \<and>
           val (Authenticate d r entity c id' s) =
             c\<lparr>Options_SignatureMode := Mode (NewSignature d (SignatureModeSha256Hmac d)),
                Options_SignatureInputs :=
                  [''key-id'' \<mapsto> id', ''signature-salt'' \<mapsto> Base64Encode d salt],
                Options_Signature := Signature sg\<rparr>"
  using assms
  by (auto simp: Authenticate_def Let_def split: sum.splits prod.splits if_splits)

lemma VerifyAuthentication_run:
  assumes "hex_DecodeString s' = Inr raw'"
      and "Base64Decode d (map_index (Options_SignatureInputs t) ''signature-salt'') = (salt, x)"
      and "ExpandKey d r' raw' salt = Inr (k', z)"
  shows "err (VerifyAuthentication d r' entity' t s') =
           (case HMACVerify d (Container_Dump d (t\<lparr>Options_Signature := []\<rparr>)) k'
                   ((NewSignature d (SignatureModeSha256Hmac d))
                      \<lparr>Signature := Options_Signature t\<rparr>) of
              Some e \<Rightarrow> Some (CouldntVerifyContainer e)
            | None \<Rightarrow> None)"
  using assms by (simp add: VerifyAuthentication_def Let_def split: option.splits)

lemma VerifyAuthentication_expand_fails:
  assumes "hex_DecodeString s' = Inr raw'"
      and "Base64Decode d (map_index (Options_SignatureInputs t) ''signature-salt'') = (salt, x)"
      and "ExpandKey d r' raw' salt = Inl e"
  shows "err (VerifyAuthentication d r' entity' t s') = Some (CouldNotExpandKey e)"
  using assms by (simp add: VerifyAuthentication_def Let_def)


text \<open>
  C2, as the code has it. Let the two packages keep the authentication contract and
  let \<open>Authenticate\<close> with the hex secret \<open>s\<close> return no error. On the container it
  leaves, \<open>VerifyAuthentication\<close> returns no error for \<open>s\<close> and for every spelling of
  the same bytes; for a secret that decodes to other bytes it returns the error
  "Couldn't verify container"; for a secret that is not hex it returns the decoding
  error instead. The container records the salt, and with any other salt put in its
  place \<open>VerifyAuthentication\<close> with \<open>s\<close> returns an error.
\<close>

theorem authenticate_then_verify:
  assumes c: "authentication_contract d"
      and a: "err (Authenticate d r entity container id' s) = None"
  shows "(\<forall>s'. hex_DecodeString s' = hex_DecodeString s \<longrightarrow>
            err (VerifyAuthentication d r' entity' (val (Authenticate d r entity container id' s)) s')
              = None) \<and>
         (\<forall>s' raw'. hex_DecodeString s' = Inr raw' \<and> hex_DecodeString s \<noteq> Inr raw' \<longrightarrow>
            (\<exists>e. err (VerifyAuthentication d r' entity'
                        (val (Authenticate d r entity container id' s)) s')
                    = Some (CouldntVerifyContainer e))) \<and>
         (\<forall>s' e. hex_DecodeString s' = Inl e \<longrightarrow>
            err (VerifyAuthentication d r' entity' (val (Authenticate d r entity container id' s)) s')
              = Some (CouldNotDecodeKey e)) \<and>
         (\<exists>salt. Options_SignatureInputs (val (Authenticate d r entity container id' s))
                    ''signature-salt'' = Some (Base64Encode d salt)) \<and>
         (\<forall>salt salt2.
            Options_SignatureInputs (val (Authenticate d r entity container id' s))
              ''signature-salt'' = Some (Base64Encode d salt) \<and> salt2 \<noteq> salt \<longrightarrow>
            err (VerifyAuthentication d r' entity'
                   ((val (Authenticate d r entity container id' s))
                      \<lparr>Options_SignatureInputs :=
                         (Options_SignatureInputs (val (Authenticate d r entity container id' s)))
                           (''signature-salt'' \<mapsto> Base64Encode d salt2)\<rparr>) s) \<noteq> None)"
proof -
  define ns where "ns = NewSignature d (SignatureModeSha256Hmac d)"
  define A where "A = val (Authenticate d r entity container id' s)"
  obtain raw k salt sg where h: "hex_DecodeString s = Inr raw"
    and x: "ExpandKey d r raw None = Inr (k, salt)"
    and mac: "crypto_HMAC d
             (Container_Dump d
                (container\<lparr>Options_SignatureMode := Mode ns,
                   Options_SignatureInputs :=
                     [''key-id'' \<mapsto> id', ''signature-salt'' \<mapsto> Base64Encode d salt],
                   Options_Signature := []\<rparr>)) k ns = Inr sg"
    and v: "A = container\<lparr>Options_SignatureMode := Mode ns,
                Options_SignatureInputs :=
                  [''key-id'' \<mapsto> id', ''signature-salt'' \<mapsto> Base64Encode d salt],
                Options_Signature := Signature sg\<rparr>"
    using Authenticate_ok [OF a] unfolding ns_def A_def by blast
  define c3 where "c3 = container\<lparr>Options_SignatureMode := Mode ns,
                   Options_SignatureInputs :=
                     [''key-id'' \<mapsto> id', ''signature-salt'' \<mapsto> Base64Encode d salt],
                   Options_Signature := []\<rparr>"
  have mac': "crypto_HMAC d (Container_Dump d c3) k (NewSignature d (SignatureModeSha256Hmac d))
                = Inr sg"
    using mac by (simp add: c3_def ns_def)
  have cleared: "A\<lparr>Options_Signature := []\<rparr> = c3"
    by (simp add: v c3_def)
  have sig: "Options_Signature A = Signature sg"
    by (simp add: v)
  have recorded: "Options_SignatureInputs A ''signature-salt'' = Some (Base64Encode d salt)"
    by (simp add: v)
  have dec: "Base64Decode d (map_index (Options_SignatureInputs A) ''signature-salt'') =
               (Some salt, None)"
    using auth_b64 [OF c] by (simp add: recorded map_index_def)
  have accept: "(HMACVerify d msg' k' (ns\<lparr>Signature := Signature sg\<rparr>) = None) =
                  (msg' = Container_Dump d c3 \<and> k' = k)" for msg' k'
    using auth_mac [OF c mac'] by (simp add: ns_def)
  have with_key: "(raw' = raw \<longrightarrow> err (VerifyAuthentication d r' entity' A s') = None) \<and>
                  (raw' \<noteq> raw \<longrightarrow>
                     (\<exists>e. err (VerifyAuthentication d r' entity' A s') =
                            Some (CouldntVerifyContainer e)))"
    if hs: "hex_DecodeString s' = Inr raw'" for s' raw'
  proof -
    obtain k' z where x': "ExpandKey d r' raw' (Some salt) = Inr (k', z)"
      and same: "(k' = k) = (raw' = raw)"
      using auth_expand [OF c x, of r' raw'] by blast
    have run: "err (VerifyAuthentication d r' entity' A s') =
           (case HMACVerify d (Container_Dump d c3) k' (ns\<lparr>Signature := Signature sg\<rparr>) of
              Some e \<Rightarrow> Some (CouldntVerifyContainer e)
            | None \<Rightarrow> None)"
      using VerifyAuthentication_run [OF hs dec x', of entity'] by (simp add: cleared sig ns_def)
    have "(HMACVerify d (Container_Dump d c3) k' (ns\<lparr>Signature := Signature sg\<rparr>) = None) =
            (raw' = raw)"
      using accept [of "Container_Dump d c3" k'] same by simp
    then show ?thesis
      using run
      by (cases "HMACVerify d (Container_Dump d c3) k' (ns\<lparr>Signature := Signature sg\<rparr>)") simp_all
  qed
  have 1: "\<forall>s'. hex_DecodeString s' = hex_DecodeString s \<longrightarrow>
            err (VerifyAuthentication d r' entity' A s') = None"
    using with_key h by simp
  have 2: "\<forall>s' raw'. hex_DecodeString s' = Inr raw' \<and> hex_DecodeString s \<noteq> Inr raw' \<longrightarrow>
            (\<exists>e. err (VerifyAuthentication d r' entity' A s') = Some (CouldntVerifyContainer e))"
    using with_key h by (metis sum.inject(2))
  have 3: "\<forall>s' e. hex_DecodeString s' = Inl e \<longrightarrow>
            err (VerifyAuthentication d r' entity' A s') = Some (CouldNotDecodeKey e)"
    by (simp add: VerifyAuthentication_def)
  have 4: "\<exists>salt. Options_SignatureInputs A ''signature-salt'' = Some (Base64Encode d salt)"
    using recorded by blast
  have 5: "err (VerifyAuthentication d r' entity'
                   (A\<lparr>Options_SignatureInputs :=
                         (Options_SignatureInputs A)(''signature-salt'' \<mapsto> Base64Encode d salt2)\<rparr>)
                   s) \<noteq> None"
    if rec: "Options_SignatureInputs A ''signature-salt'' = Some (Base64Encode d saltx)"
      and ne: "salt2 \<noteq> saltx" for saltx salt2
  proof -
    define T where "T = A\<lparr>Options_SignatureInputs :=
                         (Options_SignatureInputs A)(''signature-salt'' \<mapsto> Base64Encode d salt2)\<rparr>"
    have "Base64Decode d (Base64Encode d saltx) = Base64Decode d (Base64Encode d salt)"
      using rec recorded by simp
    then have "saltx = salt"
      using auth_b64 [OF c] by simp
    then have ne': "salt2 \<noteq> salt"
      using ne by simp
    have decT: "Base64Decode d (map_index (Options_SignatureInputs T) ''signature-salt'') =
               (Some salt2, None)"
      using auth_b64 [OF c] by (simp add: T_def map_index_def)
    have sigT: "Options_Signature T = Signature sg"
      by (simp add: T_def sig)
    have "err (VerifyAuthentication d r' entity' T s) \<noteq> None"
    proof (cases "ExpandKey d r' raw (Some salt2)")
      case (Inl e)
      then show ?thesis
        using VerifyAuthentication_expand_fails [OF h decT Inl, of entity'] by simp
    next
      case (Inr p)
      obtain k' z where p: "p = (k', z)"
        by (cases p)
      have x2: "ExpandKey d r' raw (Some salt2) = Inr (k', z)"
        using Inr p by simp
      have "k' \<noteq> k"
        by (rule auth_salt [OF c x x2 ne'])
      then have rej: "HMACVerify d (Container_Dump d (T\<lparr>Options_Signature := []\<rparr>)) k'
                        (ns\<lparr>Signature := Signature sg\<rparr>) \<noteq> None"
        using accept [of "Container_Dump d (T\<lparr>Options_Signature := []\<rparr>)" k'] by simp
      have "err (VerifyAuthentication d r' entity' T s) =
           (case HMACVerify d (Container_Dump d (T\<lparr>Options_Signature := []\<rparr>)) k'
                   (ns\<lparr>Signature := Signature sg\<rparr>) of
              Some e \<Rightarrow> Some (CouldntVerifyContainer e)
            | None \<Rightarrow> None)"
        using VerifyAuthentication_run [OF h decT x2, of entity'] by (simp add: sigT ns_def)
      then show ?thesis
        using rej
        by (cases "HMACVerify d (Container_Dump d (T\<lparr>Options_Signature := []\<rparr>)) k'
                        (ns\<lparr>Signature := Signature sg\<rparr>)") simp_all
    qed
    then show ?thesis
      unfolding T_def .
  qed
  have "(\<forall>s'. hex_DecodeString s' = hex_DecodeString s \<longrightarrow>
            err (VerifyAuthentication d r' entity' A s') = None) \<and>
         (\<forall>s' raw'. hex_DecodeString s' = Inr raw' \<and> hex_DecodeString s \<noteq> Inr raw' \<longrightarrow>
            (\<exists>e. err (VerifyAuthentication d r' entity' A s') = Some (CouldntVerifyContainer e))) \<and>
         (\<forall>s' e. hex_DecodeString s' = Inl e \<longrightarrow>
            err (VerifyAuthentication d r' entity' A s') = Some (CouldNotDecodeKey e)) \<and>
         (\<exists>salt. Options_SignatureInputs A ''signature-salt'' = Some (Base64Encode d salt)) \<and>
         (\<forall>salt salt2.
            Options_SignatureInputs A ''signature-salt'' = Some (Base64Encode d salt) \<and>
            salt2 \<noteq> salt \<longrightarrow>
            err (VerifyAuthentication d r' entity'
                   (A\<lparr>Options_SignatureInputs :=
                         (Options_SignatureInputs A)(''signature-salt'' \<mapsto> Base64Encode d salt2)\<rparr>)
                   s) \<noteq> None)"
    using 1 2 3 4 5 by blast
  then show ?thesis
    unfolding A_def .
qed

lemma sample_ExpandKey_None:
  "ExpandKey sample_deps r raw None = Inr (k, s) \<Longrightarrow> k = frame raw @ s \<and> s = r"
  by (auto simp: sample_deps_def sample_ExpandKey_def split: if_splits)

lemma sample_ExpandKey_Some:
  "ExpandKey sample_deps r raw (Some s) = Inr (frame raw @ s, s)"
  by (simp add: sample_deps_def sample_ExpandKey_def)

lemma frame_same: "(frame a = frame b) = (a = b)"
  using frame_inj [of a "[]" b "[]"] by auto

lemma sample_HMAC_Signature:
  "crypto_HMAC sample_deps msg k (NewSignature sample_deps m) = Inr sg \<Longrightarrow>
   Signature sg = CHR ''m'' # frame k @ msg"
  by (auto simp: sample_deps_def sample_HMAC_def)

lemma sample_HMACVerify_iff:
  "(HMACVerify sample_deps msg' k' (mac\<lparr>Signature := CHR ''m'' # frame k @ msg\<rparr>) = None) =
   (msg' = msg \<and> k' = k)"
proof -
  have "(frame k @ msg = frame k' @ msg') = (msg' = msg \<and> k' = k)"
    using frame_inj [of k msg k' msg'] by blast
  then show ?thesis
    by (simp add: sample_deps_def sample_HMACVerify_def)
qed

lemma sample_authentication_contract: "authentication_contract sample_deps"
proof -
  have 1: "\<forall>s. Base64Decode sample_deps (Base64Encode sample_deps s) = (Some s, None)"
    by (simp add: sample_deps_def sample_Base64Encode_def)
  have 2: "\<forall>r raw k s r' raw'.
        ExpandKey sample_deps r raw None = Inr (k, s) \<longrightarrow>
          (\<exists>k' s'. ExpandKey sample_deps r' raw' (Some s) = Inr (k', s') \<and>
                   (k' = k) = (raw' = raw))"
  proof (intro allI impI)
    fix r raw k s r' raw'
    assume "ExpandKey sample_deps r raw None = Inr (k, s)"
    then have k: "k = frame raw @ s"
      using sample_ExpandKey_None by blast
    have "ExpandKey sample_deps r' raw' (Some s) = Inr (frame raw' @ s, s) \<and>
          (frame raw' @ s = k) = (raw' = raw)"
      by (simp add: sample_ExpandKey_Some k frame_same)
    then show "\<exists>k' s'. ExpandKey sample_deps r' raw' (Some s) = Inr (k', s') \<and>
                   (k' = k) = (raw' = raw)"
      by blast
  qed
  have 3: "\<forall>r raw k s r' s2 k' s'.
        ExpandKey sample_deps r raw None = Inr (k, s) \<and>
        ExpandKey sample_deps r' raw (Some s2) = Inr (k', s') \<and> s2 \<noteq> s \<longrightarrow> k' \<noteq> k"
  proof (intro allI impI)
    fix r raw k s r' s2 k' s'
    assume a: "ExpandKey sample_deps r raw None = Inr (k, s) \<and>
        ExpandKey sample_deps r' raw (Some s2) = Inr (k', s') \<and> s2 \<noteq> s"
    then have "k = frame raw @ s"
      using sample_ExpandKey_None by blast
    moreover have "k' = frame raw @ s2"
      using a by (auto simp: sample_ExpandKey_Some)
    ultimately show "k' \<noteq> k"
      using a by simp
  qed
  have 4: "\<forall>msg k sg.
        crypto_HMAC sample_deps msg k
          (NewSignature sample_deps (SignatureModeSha256Hmac sample_deps)) = Inr sg \<longrightarrow>
          (\<forall>msg' k'.
             (HMACVerify sample_deps msg' k'
                ((NewSignature sample_deps (SignatureModeSha256Hmac sample_deps))
                   \<lparr>Signature := Signature sg\<rparr>) = None)
             = (msg' = msg \<and> k' = k))"
    by (simp add: sample_HMAC_Signature sample_HMACVerify_iff)
  show ?thesis
    unfolding authentication_contract_def using 1 2 3 4 by (intro conjI)
qed

lemma hex_ac: "hex_DecodeString ''ac'' = Inr [CHR 0xAC]"
  by code_simp

lemma pinged_ok:
  "err (Authenticate sample_deps ''salt'' alice
          (sample_Container\<lparr>Options_Source := ''a'', Data_Body := ''ping''\<rparr>) ''keyA'' ''ab'') = None"
  by code_simp

lemma pinged_salt:
  "Options_SignatureInputs pinged ''signature-salt'' = Some (Base64Encode sample_deps ''salt'')"
  by (simp add: pinged_def Authenticate_def hex_ab Let_def sample_simps)

text \<open>
  On the instance, which keeps the contract: alice authenticates \<open>ping\<close> with the
  secret \<open>ab\<close> and random bytes \<open>salt\<close>; bob verifies with \<open>ab\<close>, with \<open>ac\<close>, with
  \<open>zz\<close>, and with another salt in the container.
\<close>

theorem authenticate_then_verify_witness:
  "err (VerifyAuthentication sample_deps ''r'' bob pinged ''ab'') = None \<and>
   (\<exists>e. err (VerifyAuthentication sample_deps ''r'' bob pinged ''ac'') =
          Some (CouldntVerifyContainer e)) \<and>
   err (VerifyAuthentication sample_deps ''r'' bob pinged ''zz'') =
     Some (CouldNotDecodeKey (HexInvalidByte CHR ''z'')) \<and>
   err (VerifyAuthentication sample_deps ''r'' bob
          (pinged\<lparr>Options_SignatureInputs :=
                    (Options_SignatureInputs pinged)
                      (''signature-salt'' \<mapsto> Base64Encode sample_deps ''pepper'')\<rparr>) ''ab'')
     \<noteq> None"
proof -
  note t = authenticate_then_verify [OF sample_authentication_contract pinged_ok,
             of "''r''" bob, folded pinged_def]
  note same = t [THEN conjunct1, rule_format]
  note other = t [THEN conjunct2, THEN conjunct1, rule_format]
  note nohex = t [THEN conjunct2, THEN conjunct2, THEN conjunct1, rule_format]
  note salted = t [THEN conjunct2, THEN conjunct2, THEN conjunct2, THEN conjunct2, rule_format]
  have 1: "err (VerifyAuthentication sample_deps ''r'' bob pinged ''ab'') = None"
    by (rule same) simp
  have 2: "\<exists>e. err (VerifyAuthentication sample_deps ''r'' bob pinged ''ac'') =
          Some (CouldntVerifyContainer e)"
    by (rule other [of _ "[CHR 0xAC]"]) (simp add: hex_ac hex_ab)
  have 3: "err (VerifyAuthentication sample_deps ''r'' bob pinged ''zz'') =
     Some (CouldNotDecodeKey (HexInvalidByte CHR ''z''))"
    by (rule nohex) (rule hex_zz)
  have 4: "err (VerifyAuthentication sample_deps ''r'' bob
          (pinged\<lparr>Options_SignatureInputs :=
                    (Options_SignatureInputs pinged)
                      (''signature-salt'' \<mapsto> Base64Encode sample_deps ''pepper'')\<rparr>) ''ab'')
     \<noteq> None"
    by (rule salted [of "''salt''"]) (simp add: pinged_salt)
  show ?thesis
    using 1 2 3 4 by simp
qed

text \<open>
  C2 as stated fails: the secret \<open>AB\<close> differs from \<open>ab\<close> in both bytes and
  verifies, because \<open>hex.DecodeString\<close> reads either case; the secret \<open>zz\<close> differs
  too and fails with the decoding error, not with the verification error.
\<close>

theorem authenticate_other_spelling_counterexample:
  "err (Authenticate sample_deps ''salt'' alice
          (sample_Container\<lparr>Options_Source := ''a'', Data_Body := ''ping''\<rparr>) ''keyA'' ''ab'') = None \<and>
   ''AB'' \<noteq> ''ab'' \<and>
   err (VerifyAuthentication sample_deps ''r'' bob pinged ''AB'') = None \<and>
   err (VerifyAuthentication sample_deps ''r'' bob pinged ''zz'') =
     Some (CouldNotDecodeKey (HexInvalidByte CHR ''z''))"
  by code_simp


end
